theory Spec2Isabelle
  imports Complex_Main
begin

section \<open>Python values and exceptions\<close>

text \<open>
  The exceptions that the modelled functions of \<^verbatim>\<open>kiwi/datatypes.py\<close> can raise.
  \<open>ValidationError\<close> is the module's own exception class and carries its message; the
  others are Python's.
\<close>

datatype py_error =
    ValidationError string
  | AssertionError
  | KeyError
  | ValueError
  | OverflowError
  | TypeError

text \<open>
  A Python float is a finite binary64 number, an infinity or a NaN. A finite number is
  kept as its exact rational value; the sign of a zero is not kept (Python's \<^verbatim>\<open>==\<close>,
  \<^verbatim>\<open>>\<close>, \<^verbatim>\<open>abs\<close>, \<^verbatim>\<open>int\<close> and \<^verbatim>\<open>%\<close> do not tell \<^verbatim>\<open>-0.0\<close> from \<^verbatim>\<open>0.0\<close>).
  The same type carries the integers passed to \<^verbatim>\<open>format_price\<close>.
\<close>

datatype pyfloat = Finite rat | PosInf | NegInf | NaN

section \<open>Python string operations\<close>

text \<open>\<^verbatim>\<open>s[i:i+len(sub)] == sub\<close> with the slice inside the string.\<close>

definition occurs_at :: "string \<Rightarrow> string \<Rightarrow> nat \<Rightarrow> bool" where
  "occurs_at s sub i \<longleftrightarrow> i + length sub \<le> length s \<and> take (length sub) (drop i s) = sub"

text \<open>
  \<^verbatim>\<open>s.count(sub)\<close>: the number of non-overlapping occurrences, scanning from the left;
  for the empty \<^verbatim>\<open>sub\<close> it is \<^verbatim>\<open>len(s) + 1\<close>.
\<close>

fun count_from :: "string \<Rightarrow> string \<Rightarrow> nat" where
  "count_from sub [] = 0"
| "count_from sub (c # cs) =
     (if sub \<noteq> [] \<and> take (length sub) (c # cs) = sub
      then Suc (count_from sub (drop (length sub - 1) cs))
      else count_from sub cs)"

definition py_count :: "string \<Rightarrow> string \<Rightarrow> nat" where
  "py_count s sub = (if sub = [] then length s + 1 else count_from sub s)"

text \<open>
  \<^verbatim>\<open>s.find(sub, start)\<close>: the lowest index not below \<^verbatim>\<open>start\<close> where \<^verbatim>\<open>sub\<close> occurs,
  or \<^verbatim>\<open>-1\<close>. A negative \<^verbatim>\<open>start\<close> counts from the end of the string, clipped at 0.
\<close>

fun find_from :: "string \<Rightarrow> string \<Rightarrow> nat \<Rightarrow> int" where
  "find_from sub [] off = (if sub = [] then int off else -1)"
| "find_from sub (c # cs) off =
     (if take (length sub) (c # cs) = sub then int off else find_from sub cs (Suc off))"

definition py_find :: "string \<Rightarrow> string \<Rightarrow> int \<Rightarrow> int" where
  "py_find s sub start =
     (let st = (if start < 0 then nat (max 0 (int (length s) + start)) else nat start)
      in if length s < st then -1 else find_from sub (drop st s) st)"

text \<open>\<^verbatim>\<open>s.index(sub)\<close>: as \<^verbatim>\<open>find\<close>, raising \<^verbatim>\<open>ValueError\<close> where \<^verbatim>\<open>find\<close> gives \<^verbatim>\<open>-1\<close>.\<close>

definition py_index :: "string \<Rightarrow> string \<Rightarrow> py_error + int" where
  "py_index s sub = (let i = py_find s sub 0 in if i = -1 then Inl ValueError else Inr i)"

text \<open>
  \<^verbatim>\<open>s.replace(old, new)\<close>: every non-overlapping occurrence from the left; for the empty
  \<^verbatim>\<open>old\<close>, \<^verbatim>\<open>new\<close> is put before every character and at the end.
\<close>

fun replace_from :: "string \<Rightarrow> string \<Rightarrow> string \<Rightarrow> string" where
  "replace_from old new [] = []"
| "replace_from old new (c # cs) =
     (if old \<noteq> [] \<and> take (length old) (c # cs) = old
      then new @ replace_from old new (drop (length old - 1) cs)
      else c # replace_from old new cs)"

definition py_replace :: "string \<Rightarrow> string \<Rightarrow> string \<Rightarrow> string" where
  "py_replace s old new =
     (if old = [] then new @ concat (map (\<lambda>c. c # new) s) else replace_from old new s)"

text \<open>\<^verbatim>\<open>sep.join(parts)\<close>.\<close>

fun py_join :: "string \<Rightarrow> string list \<Rightarrow> string" where
  "py_join sep [] = []"
| "py_join sep [p] = p"
| "py_join sep (p # q # ps) = p @ sep @ py_join sep (q # ps)"

text \<open>
  The slices \<^verbatim>\<open>s[-n:]\<close> and \<^verbatim>\<open>s[:-n]\<close> for \<^verbatim>\<open>n >= 0\<close>. Since \<^verbatim>\<open>-0\<close> is \<^verbatim>\<open>0\<close>,
  \<^verbatim>\<open>s[-0:]\<close> is the whole string and \<^verbatim>\<open>s[:-0]\<close> is empty.
\<close>

definition slice_last :: "nat \<Rightarrow> 'a list \<Rightarrow> 'a list" where
  "slice_last n s = (if n = 0 then s else drop (length s - n) s)"

definition slice_but_last :: "nat \<Rightarrow> 'a list \<Rightarrow> 'a list" where
  "slice_but_last n s = (if n = 0 then [] else take (length s - n) s)"

text \<open>
  The ASCII characters that \<^verbatim>\<open>str.strip()\<close>, \<^verbatim>\<open>int()\<close> and \<^verbatim>\<open>float()\<close> treat as white
  space.
\<close>

definition is_space :: "char \<Rightarrow> bool" where
  "is_space c \<longleftrightarrow> c \<in> set [CHR '' '', CHR 0x09, CHR 0x0A, CHR 0x0B, CHR 0x0C, CHR 0x0D]"

definition py_strip :: "string \<Rightarrow> string" where
  "py_strip s = rev (dropWhile is_space (rev (dropWhile is_space s)))"

definition is_digit :: "char \<Rightarrow> bool" where
  "is_digit c \<longleftrightarrow> c \<in> set ''0123456789''"

definition digit_val :: "char \<Rightarrow> nat" where
  "digit_val c = of_char c - 48"

definition digits_val :: "string \<Rightarrow> nat" where
  "digits_val s = foldl (\<lambda>a c. 10 * a + digit_val c) 0 s"

text \<open>
  The decimal digits of a natural number, as \<^verbatim>\<open>str(n)\<close> and \<^verbatim>\<open>'%d' % n\<close> print them;
  \<open>digit_char\<close> is only applied to numbers below 10.
\<close>

definition digit_char :: "nat \<Rightarrow> char" where
  "digit_char d = ''0123456789'' ! d"

fun digits :: "nat \<Rightarrow> string" where
  "digits n = (if n < 10 then [digit_char n] else digits (n div 10) @ [digit_char (n mod 10)])"

declare digits.simps [simp del]

text \<open>\<^verbatim>\<open>'%d' % n\<close> and \<^verbatim>\<open>str(n)\<close> for an integer \<^verbatim>\<open>n\<close>.\<close>

definition percent_d :: "int \<Rightarrow> string" where
  "percent_d n = (if n < 0 then CHR ''-'' # digits (nat (- n)) else digits (nat n))"

text \<open>
  \<^verbatim>\<open>int(text)\<close>: optional white space around an optional sign and one or more decimal
  digits; anything else raises \<^verbatim>\<open>ValueError\<close> (\<open>None\<close>). The integers are Python's
  unbounded ones. Digit-group underscores of later Python versions are not read.
\<close>

definition unsigned_int :: "string \<Rightarrow> nat option" where
  "unsigned_int s = (if s \<noteq> [] \<and> list_all is_digit s then Some (digits_val s) else None)"

definition py_int :: "string \<Rightarrow> int option" where
  "py_int text =
     (case py_strip text of
        [] \<Rightarrow> None
      | c # cs \<Rightarrow>
          if c = CHR ''-'' then map_option (\<lambda>n. - int n) (unsigned_int cs)
          else if c = CHR ''+'' then map_option int (unsigned_int cs)
          else map_option int (unsigned_int (c # cs)))"

section \<open>Reading a float\<close>

text \<open>Rounding to the nearest integer, ties to even.\<close>

definition round_half_even :: "rat \<Rightarrow> int" where
  "round_half_even q =
     (let f = \<lfloor>q\<rfloor>; r = q - of_int f
      in if r < 1 / 2 then f else if 1 / 2 < r then f + 1 else if even f then f else f + 1)"

fun bit_length :: "nat \<Rightarrow> nat" where
  "bit_length n = (if n = 0 then 0 else Suc (bit_length (n div 2)))"

declare bit_length.simps [simp del]

text \<open>For \<open>0 < q\<close>, the integer \<open>k\<close> with \<open>2 ^ k \<le> q < 2 ^ (k + 1)\<close>.\<close>

definition floor_log2 :: "rat \<Rightarrow> int" where
  "floor_log2 q =
     (let (n, d) = quotient_of q;
          k = int (bit_length (nat n)) - int (bit_length (nat d))
      in if 2 powi k \<le> q then k else k - 1)"

text \<open>
  The binary64 number nearest to a rational (ties to even): 53 bits of significand, the
  least exponent of a bit \<open>-1074\<close>, and an infinity from \<open>2 ^ 1024\<close> on. This is the
  float a decimal literal of Python denotes.
\<close>

definition binary64 :: "rat \<Rightarrow> pyfloat" where
  "binary64 q =
     (if q = 0 then Finite 0
      else
        let a = \<bar>q\<bar>;
            e = max (floor_log2 a - 52) (- 1074);
            r = of_int (round_half_even (a / 2 powi e)) * 2 powi e
        in if 2 ^ 1024 \<le> r then (if 0 < q then PosInf else NegInf)
           else Finite (if 0 < q then r else - r))"

text \<open>
  The exponent part of a float text: empty, or \<^verbatim>\<open>e\<close>/\<^verbatim>\<open>E\<close>, an optional sign and one or
  more digits.
\<close>

definition float_exponent :: "string \<Rightarrow> int option" where
  "float_exponent s =
     (case s of
        [] \<Rightarrow> Some 0
      | c # cs \<Rightarrow>
          if c = CHR ''e'' \<or> c = CHR ''E'' then
            (case cs of
               [] \<Rightarrow> None
             | d # ds \<Rightarrow>
                 if d = CHR ''-'' then map_option (\<lambda>n. - int n) (unsigned_int ds)
                 else if d = CHR ''+'' then map_option int (unsigned_int ds)
                 else map_option int (unsigned_int (d # ds)))
          else None)"

text \<open>
  The unsigned decimal number of a float text: digits, an optional point with digits,
  an optional exponent, and at least one digit before the exponent. The result is the
  exact decimal value.
\<close>

definition float_decimal :: "string \<Rightarrow> rat option" where
  "float_decimal s =
     (let ip = takeWhile is_digit s;
          r1 = dropWhile is_digit s;
          fp = (case r1 of [] \<Rightarrow> [] | c # cs \<Rightarrow> if c = CHR ''.'' then takeWhile is_digit cs else []);
          r2 = (case r1 of [] \<Rightarrow> [] | c # cs \<Rightarrow> if c = CHR ''.'' then dropWhile is_digit cs else r1)
      in if ip = [] \<and> fp = [] then None
         else
           (case float_exponent r2 of
              None \<Rightarrow> None
            | Some ex \<Rightarrow>
                Some (of_nat (digits_val (ip @ fp)) * 10 powi (ex - int (length fp)))))"

definition lower_char :: "char \<Rightarrow> char" where
  "lower_char c =
     (let n = (of_char c :: nat) in if 65 \<le> n \<and> n \<le> 90 then char_of (n + 32) else c)"

definition upper_char :: "char \<Rightarrow> char" where
  "upper_char c =
     (let n = (of_char c :: nat) in if 97 \<le> n \<and> n \<le> 122 then char_of (n - 32) else c)"

definition float_unsigned :: "string \<Rightarrow> pyfloat option" where
  "float_unsigned s =
     (let l = map lower_char s
      in if l = ''inf'' \<or> l = ''infinity'' then Some PosInf
         else if l = ''nan'' then Some NaN
         else map_option binary64 (float_decimal s))"

definition float_neg :: "pyfloat \<Rightarrow> pyfloat" where
  "float_neg x = (case x of Finite q \<Rightarrow> Finite (- q) | PosInf \<Rightarrow> NegInf | NegInf \<Rightarrow> PosInf | NaN \<Rightarrow> NaN)"

text \<open>
  \<^verbatim>\<open>float(text)\<close>: optional white space around an optional sign and a decimal number,
  \<^verbatim>\<open>inf\<close>, \<^verbatim>\<open>infinity\<close> or \<^verbatim>\<open>nan\<close> in any case; anything else raises \<^verbatim>\<open>ValueError\<close>
  (\<open>None\<close>). Digit-group underscores of later Python versions are not read.
\<close>

definition py_float :: "string \<Rightarrow> pyfloat option" where
  "py_float text =
     (case py_strip text of
        [] \<Rightarrow> None
      | c # cs \<Rightarrow>
          if c = CHR ''-'' then map_option float_neg (float_unsigned cs)
          else if c = CHR ''+'' then float_unsigned cs
          else float_unsigned (c # cs))"

section \<open>The locale\<close>

text \<open>
  The dictionary of \<^verbatim>\<open>locale.localeconv()\<close>. \<^verbatim>\<open>FloatConverter\<close> reads the numeric
  keys by index; \<^verbatim>\<open>format_price\<close> reads the monetary keys with \<^verbatim>\<open>opt.get(key, default)\<close>,
  so each of them may be absent (\<open>None\<close>). Group sizes and \<^verbatim>\<open>frac_digits\<close> are the
  non-negative numbers of the C library's \<^verbatim>\<open>lconv\<close>.
\<close>

record localeconv =
  thousands_sep :: string
  decimal_point :: string
  mon_grouping :: "nat list option"
  mon_thousands_sep :: "string option"
  mon_decimal_point :: "string option"
  p_cs_precedes :: "bool option"
  n_cs_precedes :: "bool option"
  currency_symbol :: "string option"
  frac_digits :: "nat option"
  p_sep_by_space :: "bool option"
  n_sep_by_space :: "bool option"
  positive_sign :: "string option"
  negative_sign :: "string option"

text \<open>\<^verbatim>\<open>opt.get(key, default)\<close>.\<close>

definition get_default :: "'a option \<Rightarrow> 'a \<Rightarrow> 'a" where
  "get_default v d = (case v of None \<Rightarrow> d | Some x \<Rightarrow> x)"

section \<open>FloatConverter.from\_string\<close>

text \<open>
  The loop of lines 159 to 164: \<^verbatim>\<open>th_pos\<close> runs through the positions of the thousands
  separator, and the first one to the right of \<^verbatim>\<open>dec_pos\<close> raises.
\<close>

function th_loop :: "string \<Rightarrow> string \<Rightarrow> int \<Rightarrow> int \<Rightarrow> py_error + unit" where
  "th_loop val th_sep dec_pos th_pos =
     (if th_pos \<noteq> - 1 then
        if dec_pos < th_pos then
          Inl (ValidationError
            ''The decimal separator is to the left of the thousand separator'')
        else th_loop val th_sep dec_pos (py_find val th_sep (th_pos + 1))
      else Inr ())"
  by pat_completeness auto

lemma find_from_range:
  "find_from sub xs off = - 1 \<or>
   (int off \<le> find_from sub xs off \<and> find_from sub xs off \<le> int (off + length xs))"
proof (induction xs arbitrary: off)
  case Nil
  show ?case by simp
next
  case (Cons c cs)
  from Cons.IH [of "Suc off"] show ?case by auto
qed

lemma py_find_range:
  "py_find s sub start = - 1 \<or>
   (0 \<le> py_find s sub start \<and> start \<le> py_find s sub start \<and>
    py_find s sub start \<le> int (length s))"
proof (cases "py_find s sub start = - 1")
  case True
  then show ?thesis by simp
next
  case False
  define st where "st = (if start < 0 then nat (max 0 (int (length s) + start)) else nat start)"
  from False have le: "st \<le> length s" and eq: "py_find s sub start = find_from sub (drop st s) st"
    by (auto simp: py_find_def st_def Let_def split: if_splits)
  from find_from_range [of sub "drop st s" st] False eq le
  have "int st \<le> py_find s sub start" and "py_find s sub start \<le> int (length s)"
    by auto
  moreover have "start \<le> int st"
    by (auto simp: st_def)
  ultimately show ?thesis by simp
qed

termination th_loop
proof (relation "measure (\<lambda>(val, th_sep, dec_pos, th_pos).
    if th_pos = - 1 then 0 else 1 + nat (int (length val) - th_pos))")
  show "wf (measure (\<lambda>(val, th_sep, dec_pos, th_pos).
    if th_pos = - 1 then 0 else 1 + nat (int (length val) - th_pos)))"
    by simp
next
  fix val th_sep :: string and dec_pos th_pos :: int
  assume "th_pos \<noteq> - 1" "\<not> dec_pos < th_pos"
  with py_find_range [of val th_sep "th_pos + 1"]
  show "((val, th_sep, dec_pos, py_find val th_sep (th_pos + 1)), (val, th_sep, dec_pos, th_pos))
    \<in> measure (\<lambda>(val, th_sep, dec_pos, th_pos).
        if th_pos = - 1 then 0 else 1 + nat (int (length val) - th_pos))"
    by auto
qed

declare th_loop.simps [simp del]

text \<open>
  \<^verbatim>\<open>FloatConverter.from_string(self, value)\<close>; \<open>self\<close> is the converter's
  \<^verbatim>\<open>_locale_dictionary\<close>, the \<^verbatim>\<open>localeconv()\<close> taken when the converter was made.
\<close>

definition FloatConverter_from_string :: "'a localeconv_scheme \<Rightarrow> string \<Rightarrow> py_error + pyfloat" where
  "FloatConverter_from_string self val =
     (let th_sep = thousands_sep self;
          dec_sep = decimal_point self;
          th_sep = (if th_sep = [] then ''.'' else th_sep);
          th_sep_count = py_count val th_sep;
          dec_sep_count = py_count val dec_sep;
          checked =
            (if 0 < th_sep_count \<or> 0 < dec_sep_count then
               if 1 < dec_sep_count then
                 Inl (ValidationError
                   (''You have more than one decimal separator ('' @ [CHR 0x22] @ dec_sep @
                    [CHR 0x22] @ '')  in your number '' @ [CHR 0x22] @ val @ [CHR 0x22]))
               else if 0 < th_sep_count \<and> 0 < dec_sep_count then
                 (case py_index val dec_sep of
                    Inl e \<Rightarrow> Inl e
                  | Inr dec_pos \<Rightarrow> th_loop val th_sep dec_pos (py_find val th_sep 0))
               else Inr ()
             else Inr ())
      in case checked of
           Inl e \<Rightarrow> Inl e
         | Inr u \<Rightarrow>
             (let val1 = py_replace val th_sep [];
                  val2 = py_replace val1 dec_sep ''.''
              in case py_float val2 of
                   None \<Rightarrow> Inl (ValidationError ''This field requires a number'')
                 | Some x \<Rightarrow> Inr x))"

text \<open>
  The decimal separator is found to the left of some occurrence of the thousands
  separator: the inputs that lines 155 to 164 are there to refuse.
\<close>

definition decimal_left_of_thousands :: "string \<Rightarrow> string \<Rightarrow> string \<Rightarrow> bool" where
  "decimal_left_of_thousands val th_sep dec_sep \<longleftrightarrow>
     (\<exists>q \<in> {0..length val}. occurs_at val th_sep q \<and>
        0 \<le> py_find val dec_sep 0 \<and> py_find val dec_sep 0 < int q)"

text \<open>A \<^verbatim>\<open>localeconv()\<close> with the two numeric separators and no monetary key.\<close>

definition numeric_locale :: "string \<Rightarrow> string \<Rightarrow> localeconv" where
  "numeric_locale th dec =
     \<lparr>thousands_sep = th, decimal_point = dec, mon_grouping = None, mon_thousands_sep = None,
      mon_decimal_point = None, p_cs_precedes = None, n_cs_precedes = None,
      currency_symbol = None, frac_digits = None, p_sep_by_space = None,
      n_sep_by_space = None, positive_sign = None, negative_sign = None\<rparr>"

section \<open>Values, types and the host\<close>

text \<open>
  The Python values that reach the registry: texts, integers, booleans, floats, dates,
  \<^verbatim>\<open>None\<close>, the builtin \<^verbatim>\<open>str\<close> itself (which \<^verbatim>\<open>BoolConverter.as_string\<close> returns), and
  an instance of any other class, known by its class name.
\<close>

datatype pyval =
    VStr string
  | VInt int
  | VBool bool
  | VFloat pyfloat
  | VDate int int int
  | VNone
  | Builtin_str
  | VObject string

text \<open>The types that serve as keys of the registry; \<open>T_other\<close> is any other class.\<close>

datatype py_type = T_str | T_int | T_bool | T_float | T_date | T_object | T_other string

text \<open>\<^verbatim>\<open>type(data)\<close>.\<close>

fun type_of :: "pyval \<Rightarrow> py_type" where
  "type_of (VStr s) = T_str"
| "type_of (VInt n) = T_int"
| "type_of (VBool b) = T_bool"
| "type_of (VFloat x) = T_float"
| "type_of (VDate y m d) = T_date"
| "type_of VNone = T_other ''NoneType''"
| "type_of Builtin_str = T_other ''type''"
| "type_of (VObject cls) = T_other cls"

text \<open>
  \<^verbatim>\<open>issubclass\<close> on these types: every type is a subclass of itself and of \<^verbatim>\<open>object\<close>,
  and Python's \<^verbatim>\<open>bool\<close> is a subclass of \<^verbatim>\<open>int\<close>.
\<close>

definition issubclass :: "py_type \<Rightarrow> py_type \<Rightarrow> bool" where
  "issubclass a b \<longleftrightarrow> a = b \<or> b = T_object \<or> (a = T_bool \<and> b = T_int)"

definition isinstance :: "pyval \<Rightarrow> py_type \<Rightarrow> bool" where
  "isinstance data t = issubclass (type_of data) t"

text \<open>
  What the module takes from Python's library and the process locale:
  \<^verbatim>\<open>locale.localeconv()\<close>, the language of \<^verbatim>\<open>locale.getlocale(locale.LC_MONETARY)\<close>,
  \<^verbatim>\<open>locale.nl_langinfo(locale.D_FMT)\<close>, \<^verbatim>\<open>locale.format(format, value, grouping)\<close>,
  \<^verbatim>\<open>format % value\<close> for a format given by the caller, \<^verbatim>\<open>value.strftime(format)\<close>, and
  the year, month and day of \<^verbatim>\<open>time.strptime(value, format)\<close> (\<open>None\<close> for its
  \<^verbatim>\<open>ValueError\<close>). The last four are parameters of the model.
\<close>

record host =
  conv :: localeconv
  monetary_locale :: "string option"
  d_fmt :: string
  locale_format :: "string \<Rightarrow> pyval \<Rightarrow> bool \<Rightarrow> py_error + string"
  percent :: "string \<Rightarrow> pyval \<Rightarrow> py_error + string"
  strftime :: "pyval \<Rightarrow> string \<Rightarrow> py_error + string"
  strptime :: "string \<Rightarrow> string \<Rightarrow> (int \<times> int \<times> int) option"

text \<open>\<^verbatim>\<open>lformat(format, value)\<close> is \<^verbatim>\<open>locale.format(format, value, 1)\<close>.\<close>

definition lformat :: "host \<Rightarrow> string \<Rightarrow> pyval \<Rightarrow> py_error + string" where
  "lformat h format val = locale_format h format val True"

section \<open>The converters\<close>

text \<open>
  A converter instance: its \<^verbatim>\<open>type\<close> and its two methods, either of which may be
  \<^verbatim>\<open>None\<close>. A method takes the data and the further positional arguments of the call; a
  call with more arguments than the method has parameters raises \<^verbatim>\<open>TypeError\<close>.
  \<^verbatim>\<open>from_string\<close> is given a text. Keyword arguments are not modelled.
\<close>

record converter =
  conv_type :: py_type
  as_string :: "(pyval \<Rightarrow> pyval list \<Rightarrow> py_error + pyval) option"
  from_string :: "(string \<Rightarrow> pyval list \<Rightarrow> py_error + pyval) option"

definition to_VStr :: "py_error + string \<Rightarrow> py_error + pyval" where
  "to_VStr r = (case r of Inl e \<Rightarrow> Inl e | Inr s \<Rightarrow> Inr (VStr s))"

definition StringConverter_from_string :: "string \<Rightarrow> pyval list \<Rightarrow> py_error + pyval" where
  "StringConverter_from_string val args = (if args = [] then Inr (VStr val) else Inl TypeError)"

definition StringConverter_as_string :: "host \<Rightarrow> pyval \<Rightarrow> pyval list \<Rightarrow> py_error + pyval" where
  "StringConverter_as_string h val args =
     (case args of
        [] \<Rightarrow> to_VStr (percent h ''%s'' val)
      | [VStr format] \<Rightarrow> to_VStr (percent h format val)
      | _ \<Rightarrow> Inl TypeError)"

definition StringConverter :: "host \<Rightarrow> converter" where
  "StringConverter h =
     \<lparr>conv_type = T_str, as_string = Some (StringConverter_as_string h),
      from_string = Some StringConverter_from_string\<rparr>"

definition IntConverter_as_string :: "host \<Rightarrow> pyval \<Rightarrow> pyval list \<Rightarrow> py_error + pyval" where
  "IntConverter_as_string h val args =
     (case args of
        [] \<Rightarrow> to_VStr (lformat h ''%d'' val)
      | [VStr format] \<Rightarrow> to_VStr (lformat h format val)
      | _ \<Rightarrow> Inl TypeError)"

definition IntConverter_from_string :: "string \<Rightarrow> pyval list \<Rightarrow> py_error + pyval" where
  "IntConverter_from_string val args =
     (if args = [] then
        (case py_int val of
           Some n \<Rightarrow> Inr (VInt n)
         | None \<Rightarrow> Inl (ValidationError ''This field requires an integer number''))
      else Inl TypeError)"

definition IntConverter :: "host \<Rightarrow> converter" where
  "IntConverter h =
     \<lparr>conv_type = T_int, as_string = Some (IntConverter_as_string h),
      from_string = Some IntConverter_from_string\<rparr>"

text \<open>
  \<^verbatim>\<open>as_string = lambda s, value, format=None: str\<close>: the body is the name \<^verbatim>\<open>str\<close>, not a
  call of it.
\<close>

definition BoolConverter_as_string :: "pyval \<Rightarrow> pyval list \<Rightarrow> py_error + pyval" where
  "BoolConverter_as_string val args =
     (case args of
        [] \<Rightarrow> Inr Builtin_str
      | [format] \<Rightarrow> Inr Builtin_str
      | _ \<Rightarrow> Inl TypeError)"

definition BoolConverter_from_string :: "string \<Rightarrow> pyval list \<Rightarrow> py_error + pyval" where
  "BoolConverter_from_string val args =
     (let upper = map upper_char val
      in case args of
           [] \<Rightarrow>
             if upper \<in> set [''TRUE'', ''1''] then Inr (VBool True)
             else if upper \<in> set [''FALSE'', ''0''] then Inr (VBool False)
             else Inr (VBool True)
         | [default_value] \<Rightarrow>
             if upper \<in> set [''TRUE'', ''1''] then Inr (VBool True)
             else if upper \<in> set [''FALSE'', ''0''] then Inr (VBool False)
             else Inr default_value
         | _ \<Rightarrow> Inl TypeError)"

definition BoolConverter :: converter where
  "BoolConverter =
     \<lparr>conv_type = T_bool, as_string = Some BoolConverter_as_string,
      from_string = Some BoolConverter_from_string\<rparr>"

definition FloatConverter_as_string :: "host \<Rightarrow> pyval \<Rightarrow> pyval list \<Rightarrow> py_error + pyval" where
  "FloatConverter_as_string h val args =
     (case args of
        [] \<Rightarrow> to_VStr (lformat h ''%f'' val)
      | [VStr format] \<Rightarrow> to_VStr (lformat h format val)
      | _ \<Rightarrow> Inl TypeError)"

definition FloatConverter :: "host \<Rightarrow> converter" where
  "FloatConverter h =
     \<lparr>conv_type = T_float, as_string = Some (FloatConverter_as_string h),
      from_string = Some (\<lambda>val args.
        if args = [] then
          (case FloatConverter_from_string (conv h) val of
             Inl e \<Rightarrow> Inl e
           | Inr x \<Rightarrow> Inr (VFloat x))
        else Inl TypeError)\<rparr>"

text \<open>The converter keeps \<^verbatim>\<open>self._format\<close>, the locale's date format when it was made.\<close>

definition DateConverter_as_string :: "host \<Rightarrow> pyval \<Rightarrow> pyval list \<Rightarrow> py_error + pyval" where
  "DateConverter_as_string h val args =
     (case args of
        [] \<Rightarrow> to_VStr (strftime h val (d_fmt h))
      | [VNone] \<Rightarrow> to_VStr (strftime h val (d_fmt h))
      | [VStr format] \<Rightarrow> to_VStr (strftime h val format)
      | _ \<Rightarrow> Inl TypeError)"

definition DateConverter_from_string :: "host \<Rightarrow> string \<Rightarrow> pyval list \<Rightarrow> py_error + pyval" where
  "DateConverter_from_string h val args =
     (if args = [] then
        (case strptime h val (d_fmt h) of
           Some (y, m, d) \<Rightarrow> Inr (VDate y m d)
         | None \<Rightarrow>
             Inl (ValidationError
               (''This field requires a date of the format '' @ [CHR 0x22] @ d_fmt h @
                [CHR 0x22])))
      else Inl TypeError)"

definition DateConverter :: "host \<Rightarrow> converter" where
  "DateConverter h =
     \<lparr>conv_type = T_date, as_string = Some (DateConverter_as_string h),
      from_string = Some (DateConverter_from_string h)\<rparr>"

definition ObjectConverter :: converter where
  "ObjectConverter = \<lparr>conv_type = T_object, as_string = None, from_string = None\<rparr>"

section \<open>ConverterRegistry\<close>

text \<open>\<^verbatim>\<open>self._converters\<close>, a dictionary from types to converter instances.\<close>

type_synonym registry = "py_type \<rightharpoonup> converter"

definition add :: "registry \<Rightarrow> converter \<Rightarrow> registry" where
  "add self c = self(conv_type c \<mapsto> c)"

definition ConverterRegistry_as_string ::
  "registry \<Rightarrow> py_type \<Rightarrow> pyval \<Rightarrow> pyval list \<Rightarrow> py_error + pyval" where
  "ConverterRegistry_as_string self converter_type data args =
     (case self converter_type of
        None \<Rightarrow> Inl KeyError
      | Some c \<Rightarrow>
          (case as_string c of
             None \<Rightarrow> Inr data
           | Some f \<Rightarrow>
               if \<not> isinstance data (conv_type c) then Inl AssertionError
               else f data args))"

definition ConverterRegistry_from_string ::
  "registry \<Rightarrow> py_type \<Rightarrow> string \<Rightarrow> pyval list \<Rightarrow> py_error + pyval" where
  "ConverterRegistry_from_string self converter_type data args =
     (case self converter_type of
        None \<Rightarrow> Inl KeyError
      | Some c \<Rightarrow>
          (case from_string c of
             None \<Rightarrow> Inr (VStr data)
           | Some f \<Rightarrow> f data args))"

text \<open>
  The module's global \<^verbatim>\<open>converter\<close>: an empty registry to which the six converter
  classes are added in the order of the file.
\<close>

definition converter :: "host \<Rightarrow> registry" where
  "converter h =
     foldl add Map.empty
       [StringConverter h, IntConverter h, BoolConverter, FloatConverter h, DateConverter h,
        ObjectConverter]"

section \<open>format\_price\<close>

text \<open>
  \<^verbatim>\<open>'%.Nf' % value\<close> for a finite value: the exact value rounded to \<open>n\<close> decimals, ties
  to even.
\<close>

definition fmt_f :: "nat \<Rightarrow> rat \<Rightarrow> string" where
  "fmt_f n v =
     (let ds = digits (nat (round_half_even (\<bar>v\<bar> * 10 ^ n)));
          padded = replicate (Suc n - length ds) CHR ''0'' @ ds;
          ip = take (length padded - n) padded;
          fp = drop (length padded - n) padded
      in (if v < 0 then ''-'' else []) @ ip @ (if n = 0 then [] else ''.'' @ fp))"

text \<open>
  The loop of lines 265 to 279. \<open>grp\<close> is the variable \<^verbatim>\<open>group\<close> of the source and
  \<open>groups\<close> the reversed pattern, from whose end the next size is popped.
\<close>

function group_loop :: "string \<Rightarrow> nat \<Rightarrow> nat list \<Rightarrow> string list \<Rightarrow> string list" where
  "group_loop intpart grp groups intparts =
     (if intpart = [] then intparts
      else
        let s = slice_last grp intpart;
            intparts' = s # intparts;
            intpart' = slice_but_last grp intpart
        in if groups = [] then group_loop intpart' grp groups intparts'
           else
             let lst = last groups;
                 groups' = butlast groups
             in group_loop intpart' (if lst \<noteq> 0 then lst else grp) groups' intparts')"
  by pat_completeness auto

termination group_loop
  by (relation "measure (\<lambda>(intpart, grp, groups, intparts). length intpart)")
    (auto simp: slice_but_last_def)

declare group_loop.simps [simp del]

text \<open>
  Lines 255 to 279: the groups of the integer part, from left to right; \<open>grouping\<close> is
  \<^verbatim>\<open>mon_grouping\<close>.
\<close>

definition group_digits :: "nat list \<Rightarrow> string \<Rightarrow> string list" where
  "group_digits grouping intpart =
     (let groups = rev grouping
      in if groups \<noteq> [] then group_loop intpart (last groups) (butlast groups) []
         else group_loop intpart 3 groups [])"

text \<open>
  \<^verbatim>\<open>format_price(value, symbol)\<close>. The flags of \<^verbatim>\<open>localeconv()\<close> are kept as their truth
  values. For an infinity \<^verbatim>\<open>int(abs(value))\<close> raises \<^verbatim>\<open>OverflowError\<close>, for a NaN
  \<^verbatim>\<open>ValueError\<close>.
\<close>

definition format_price :: "host \<Rightarrow> pyfloat \<Rightarrow> bool \<Rightarrow> py_error + string" where
  "format_price h val symbol =
     (let opt = conv h;
          mon_grouping = get_default (mon_grouping opt) [];
          mon_thousands_sep = get_default (mon_thousands_sep opt) ''.'';
          mon_decimal_point = get_default (mon_decimal_point opt) ''.'';
          p_cs_precedes = get_default (p_cs_precedes opt) True;
          n_cs_precedes = get_default (n_cs_precedes opt) p_cs_precedes;
          currency_symbol = get_default (currency_symbol opt) [];
          frac_digits = get_default (frac_digits opt) 2;
          p_sep_by_space = get_default (p_sep_by_space opt) True;
          n_sep_by_space = get_default (n_sep_by_space opt) p_sep_by_space;
          positive_sign = get_default (positive_sign opt) [];
          negative_sign = get_default (negative_sign opt) ''-'';
          pt_BR = (monetary_locale h = Some ''pt_BR'');
          p_cs_precedes = (if pt_BR then True else p_cs_precedes);
          n_cs_precedes = (if pt_BR then True else n_cs_precedes);
          p_sep_by_space = (if pt_BR then False else p_sep_by_space);
          n_sep_by_space = (if pt_BR then False else n_sep_by_space);
          frac_digits = (if frac_digits = 127 then 2 else frac_digits)
      in case val of
           PosInf \<Rightarrow> Inl OverflowError
         | NegInf \<Rightarrow> Inl OverflowError
         | NaN \<Rightarrow> Inl ValueError
         | Finite v \<Rightarrow>
             (let cs_precedes = (if 0 < v then p_cs_precedes else n_cs_precedes);
                  sep_by_space = (if 0 < v then p_sep_by_space else n_sep_by_space);
                  sign = (if 0 < v then positive_sign else negative_sign);
                  intparts = group_digits mon_grouping (digits (nat \<lfloor>\<bar>v\<bar>\<rfloor>));
                  retval = sign @ py_join mon_thousands_sep intparts;
                  retval =
                    (if v \<noteq> of_int \<lfloor>v\<rfloor>
                     then retval @ mon_decimal_point @ slice_last frac_digits (fmt_f frac_digits v)
                     else retval);
                  retval =
                    (if currency_symbol \<noteq> [] \<and> symbol then
                       let space = (if sep_by_space then '' '' else [])
                       in if cs_precedes then currency_symbol @ space @ retval
                          else retval @ space @ currency_symbol
                     else retval)
              in Inr retval))"

text \<open>
  The reading of the grouping pattern that the specification gives: the group of index
  \<open>k\<close> from the right has the last non-zero size among the first \<open>k + 1\<close> entries of the
  pattern, so a zero repeats the size before it and the last non-zero size serves once
  the pattern is used up.
\<close>

definition nth_group_size :: "nat list \<Rightarrow> nat \<Rightarrow> nat" where
  "nth_group_size pattern k = last (filter (\<lambda>g. g \<noteq> 0) (take (Suc k) pattern))"

text \<open>
  Hosts for the concrete cases below. Of their library functions only what the cases use
  is filled in: \<^verbatim>\<open>locale.format\<close> prints \<^verbatim>\<open>%d\<close> of an integer or a boolean as its
  decimal digits, without grouping, and every other call is refused.
\<close>

definition plain_format :: "string \<Rightarrow> pyval \<Rightarrow> bool \<Rightarrow> py_error + string" where
  "plain_format format val grouping =
     (if format = ''%d'' then
        (case val of
           VInt n \<Rightarrow> Inr (percent_d n)
         | VBool b \<Rightarrow> Inr (percent_d (if b then 1 else 0))
         | _ \<Rightarrow> Inl TypeError)
      else Inl ValueError)"

definition example_host :: "localeconv \<Rightarrow> host" where
  "example_host lc =
     \<lparr>conv = lc, monetary_locale = None, d_fmt = ''%m/%d/%y'', locale_format = plain_format,
      percent = (\<lambda>format val. Inl TypeError), strftime = (\<lambda>val format. Inl TypeError),
      strptime = (\<lambda>val format. None)\<rparr>"

text \<open>The \<^verbatim>\<open>localeconv()\<close> of the locale \<^verbatim>\<open>en_US\<close>.\<close>

definition us_conv :: localeconv where
  "us_conv =
     \<lparr>thousands_sep = '','', decimal_point = ''.'', mon_grouping = Some [3, 3, 0],
      mon_thousands_sep = Some '','', mon_decimal_point = Some ''.'', p_cs_precedes = Some True,
      n_cs_precedes = Some True, currency_symbol = Some ''$'', frac_digits = Some 2,
      p_sep_by_space = Some False, n_sep_by_space = Some False, positive_sign = Some [],
      negative_sign = Some ''-''\<rparr>"

text \<open>The dictionary with the keys of the monetary example and no other monetary key.\<close>

definition price_conv :: localeconv where
  "price_conv =
     \<lparr>thousands_sep = '','', decimal_point = ''.'', mon_grouping = Some [3, 0],
      mon_thousands_sep = Some '','', mon_decimal_point = Some ''.'', p_cs_precedes = Some True,
      n_cs_precedes = None, currency_symbol = Some ''$'', frac_digits = Some 2,
      p_sep_by_space = Some False, n_sep_by_space = None, positive_sign = None,
      negative_sign = None\<rparr>"

text \<open>
  The groups from the right to the left, by recursion on the text that is still to be
  cut; \<open>rest\<close> is the part of the pattern after the current size, in the order of the
  pattern. The loop of \<^verbatim>\<open>format_price\<close> builds the reverse of this list.
\<close>

function groups_right :: "string \<Rightarrow> nat \<Rightarrow> nat list \<Rightarrow> string list" where
  "groups_right intpart grp rest =
     (if intpart = [] then []
      else slice_last grp intpart #
        groups_right (slice_but_last grp intpart)
          (case rest of [] \<Rightarrow> grp | r # rs \<Rightarrow> if r \<noteq> 0 then r else grp) (tl rest))"
  by pat_completeness auto

termination groups_right
  by (relation "measure (\<lambda>(intpart, grp, rest). length intpart)")
    (auto simp: slice_but_last_def)

declare groups_right.simps [simp del]

text \<open>
  The parameters that depend on the sign, after the defaults of lines 224 to 231 and the
  correction for \<^verbatim>\<open>pt_BR\<close> of lines 236 to 238: whether the currency symbol precedes,
  whether a space separates it, and the sign string; one triple for positive values and
  one for the others.
\<close>

definition positive_set :: "host \<Rightarrow> bool \<times> bool \<times> string" where
  "positive_set h =
     (let pt_BR = (monetary_locale h = Some ''pt_BR'')
      in (if pt_BR then True else get_default (p_cs_precedes (conv h)) True,
          if pt_BR then False else get_default (p_sep_by_space (conv h)) True,
          get_default (positive_sign (conv h)) []))"

definition negative_set :: "host \<Rightarrow> bool \<times> bool \<times> string" where
  "negative_set h =
     (let pt_BR = (monetary_locale h = Some ''pt_BR'')
      in (if pt_BR then True
          else get_default (n_cs_precedes (conv h)) (get_default (p_cs_precedes (conv h)) True),
          if pt_BR then False
          else get_default (n_sep_by_space (conv h)) (get_default (p_sep_by_space (conv h)) True),
          get_default (negative_sign (conv h)) ''-''))"

text \<open>
  The text of lines 254 to 287 without the sign: the groups of the integer part joined
  by the separator and, for a value that is not whole, the decimal point and the
  decimals.
\<close>

definition unsigned_text :: "host \<Rightarrow> rat \<Rightarrow> string" where
  "unsigned_text h v =
     (let fd = get_default (frac_digits (conv h)) 2;
          fd = (if fd = 127 then 2 else fd)
      in py_join (get_default (mon_thousands_sep (conv h)) ''.'')
           (group_digits (get_default (mon_grouping (conv h)) []) (digits (nat \<lfloor>\<bar>v\<bar>\<rfloor>))) @
         (if v \<noteq> of_int \<lfloor>v\<rfloor>
          then get_default (mon_decimal_point (conv h)) ''.'' @ slice_last fd (fmt_f fd v)
          else []))"

text \<open>Lines 289 to 297: the currency symbol put before or after the text.\<close>

definition with_symbol :: "host \<Rightarrow> bool \<Rightarrow> bool \<Rightarrow> bool \<Rightarrow> string \<Rightarrow> string" where
  "with_symbol h symbol cs_precedes sep_by_space retval =
     (let cs = get_default (currency_symbol (conv h)) []
      in if cs \<noteq> [] \<and> symbol then
           if cs_precedes then cs @ (if sep_by_space then '' '' else []) @ retval
           else retval @ (if sep_by_space then '' '' else []) @ cs
         else retval)"

section \<open>Properties of FloatConverter.from\_string\<close>

lemma take_eq_length: "take (length sub) xs = sub \<Longrightarrow> length sub \<le> length xs"
  by (drule arg_cong [where f = length]) simp

lemma find_from_complete:
  "k + length sub \<le> length xs \<Longrightarrow> take (length sub) (drop k xs) = sub \<Longrightarrow>
   find_from sub xs off \<noteq> - 1 \<and> find_from sub xs off \<le> int (off + k)"
proof (induction xs arbitrary: off k)
  case Nil
  then show ?case by simp
next
  case (Cons c cs)
  show ?case
  proof (cases "take (length sub) (c # cs) = sub")
    case True
    then show ?thesis by simp
  next
    case False
    with Cons.prems obtain k' where k: "k = Suc k'"
      by (cases k) auto
    with Cons.prems have "k' + length sub \<le> length cs" "take (length sub) (drop k' cs) = sub"
      by auto
    from Cons.IH [OF this, of "Suc off"] False k show ?thesis by simp
  qed
qed

lemma find_from_occurs:
  "find_from sub xs off \<noteq> - 1 \<Longrightarrow>
   \<exists>k. find_from sub xs off = int (off + k) \<and> k + length sub \<le> length xs \<and>
       take (length sub) (drop k xs) = sub"
proof (induction xs arbitrary: off)
  case Nil
  then show ?case by (auto split: if_splits)
next
  case (Cons c cs)
  show ?case
  proof (cases "take (length sub) (c # cs) = sub")
    case True
    then have "length sub \<le> length (c # cs)"
      by (auto dest: take_eq_length)
    with True show ?thesis by (intro exI [of _ 0]) simp
  next
    case False
    with Cons.prems have "find_from sub cs (Suc off) \<noteq> - 1" by simp
    from Cons.IH [OF this] obtain k where
      "find_from sub cs (Suc off) = int (Suc off + k)" "k + length sub \<le> length cs"
      "take (length sub) (drop k cs) = sub" by blast
    with False show ?thesis by (intro exI [of _ "Suc k"]) simp
  qed
qed

lemma py_find_complete:
  assumes "occurs_at s sub q" "0 \<le> start" "start \<le> int q"
  shows "py_find s sub start \<noteq> - 1 \<and> py_find s sub start \<le> int q"
proof -
  define st where "st = nat start"
  from assms have st: "st \<le> q" "q + length sub \<le> length s"
    and tk: "take (length sub) (drop q s) = sub"
    by (auto simp: st_def occurs_at_def)
  then have "(q - st) + length sub \<le> length (drop st s)"
    "take (length sub) (drop (q - st) (drop st s)) = sub"
    by auto
  from find_from_complete [OF this, of st] st assms(2)
  show ?thesis by (simp add: py_find_def st_def Let_def)
qed

lemma py_find_occurs:
  assumes "py_find s sub start \<noteq> - 1"
  shows "occurs_at s sub (nat (py_find s sub start))"
proof -
  define st where "st = (if start < 0 then nat (max 0 (int (length s) + start)) else nat start)"
  from assms have le: "st \<le> length s" and eq: "py_find s sub start = find_from sub (drop st s) st"
    by (auto simp: py_find_def st_def Let_def split: if_splits)
  from assms eq have "find_from sub (drop st s) st \<noteq> - 1" by simp
  from find_from_occurs [OF this] obtain k where
    k: "find_from sub (drop st s) st = int (st + k)" "k + length sub \<le> length (drop st s)"
    "take (length sub) (drop k (drop st s)) = sub" by blast
  from k(1) eq have "nat (py_find s sub start) = st + k" by simp
  with k le show ?thesis
    by (simp add: occurs_at_def add.commute)
qed

lemma count_from_pos:
  "sub \<noteq> [] \<Longrightarrow> occurs_at s sub q \<Longrightarrow> 0 < count_from sub s"
proof (induction s arbitrary: q)
  case Nil
  then show ?case by (simp add: occurs_at_def)
next
  case (Cons c cs)
  show ?case
  proof (cases "take (length sub) (c # cs) = sub")
    case True
    with Cons.prems show ?thesis by simp
  next
    case False
    with Cons.prems obtain q' where "q = Suc q'"
      by (cases q) (auto simp: occurs_at_def)
    with Cons.prems have "occurs_at cs sub q'" by (simp add: occurs_at_def)
    from Cons.IH [OF Cons.prems(1) this] False show ?thesis by simp
  qed
qed

lemma count_from_occurs:
  "0 < count_from sub s \<Longrightarrow> \<exists>q. occurs_at s sub q"
proof (induction s)
  case Nil
  then show ?case by simp
next
  case (Cons c cs)
  show ?case
  proof (cases "sub \<noteq> [] \<and> take (length sub) (c # cs) = sub")
    case True
    then have "length sub \<le> length (c # cs)"
      by (auto dest: take_eq_length)
    with True have "occurs_at (c # cs) sub 0" by (simp add: occurs_at_def)
    then show ?thesis ..
  next
    case False
    with Cons.prems have "0 < count_from sub cs" by auto
    from Cons.IH [OF this] obtain q where "occurs_at cs sub q" ..
    then have "occurs_at (c # cs) sub (Suc q)" by (simp add: occurs_at_def)
    then show ?thesis ..
  qed
qed

lemma py_count_pos_find:
  assumes "0 < py_count s sub"
  shows "py_find s sub 0 \<noteq> - 1"
proof (cases "sub = []")
  case True
  have "occurs_at s [] 0" by (simp add: occurs_at_def)
  from py_find_complete [OF this, of 0] True show ?thesis by simp
next
  case False
  with assms have "0 < count_from sub s" by (simp add: py_count_def)
  from count_from_occurs [OF this] obtain q where q: "occurs_at s sub q" ..
  from py_find_complete [OF q, of 0] show ?thesis by simp
qed

lemma py_count_pos:
  assumes "occurs_at s sub q"
  shows "0 < py_count s sub"
  using assms count_from_pos [of sub s q] by (simp add: py_count_def)

lemma th_loop_fails:
  "occurs_at val th_sep q \<Longrightarrow> dec_pos < int q \<Longrightarrow> th_pos \<noteq> - 1 \<Longrightarrow> 0 \<le> th_pos \<Longrightarrow>
   th_pos \<le> int q \<Longrightarrow>
   th_loop val th_sep dec_pos th_pos =
     Inl (ValidationError ''The decimal separator is to the left of the thousand separator'')"
proof (induction val th_sep dec_pos th_pos rule: th_loop.induct)
  case (1 val th_sep dec_pos th_pos)
  show ?case
  proof (cases "dec_pos < th_pos")
    case True
    with "1.prems" show ?thesis by (simp add: th_loop.simps)
  next
    case False
    with "1.prems" have "0 \<le> th_pos + 1" "th_pos + 1 \<le> int q" by auto
    from py_find_complete [OF "1.prems"(1) this] py_find_range [of val th_sep "th_pos + 1"]
    have "py_find val th_sep (th_pos + 1) \<noteq> - 1" "0 \<le> py_find val th_sep (th_pos + 1)"
      "py_find val th_sep (th_pos + 1) \<le> int q" by auto
    from "1.IH" [OF "1.prems"(3) False "1.prems"(1,2) this] False "1.prems"(3)
    show ?thesis by (subst th_loop.simps) simp
  qed
qed

lemma th_loop_passes:
  "(\<And>q. occurs_at val th_sep q \<Longrightarrow> \<not> dec_pos < int q) \<Longrightarrow>
   th_pos = - 1 \<or> (0 \<le> th_pos \<and> occurs_at val th_sep (nat th_pos)) \<Longrightarrow>
   th_loop val th_sep dec_pos th_pos = Inr ()"
proof (induction val th_sep dec_pos th_pos rule: th_loop.induct)
  case (1 val th_sep dec_pos th_pos)
  show ?case
  proof (cases "th_pos = - 1")
    case True
    then show ?thesis by (simp add: th_loop.simps)
  next
    case False
    with "1.prems"(2) have occ: "0 \<le> th_pos" "occurs_at val th_sep (nat th_pos)" by auto
    from "1.prems"(1) [OF occ(2)] occ(1) have nl: "\<not> dec_pos < th_pos" by simp
    have "py_find val th_sep (th_pos + 1) = - 1 \<or>
      (0 \<le> py_find val th_sep (th_pos + 1) \<and>
       occurs_at val th_sep (nat (py_find val th_sep (th_pos + 1))))"
      using py_find_occurs [of val th_sep "th_pos + 1"] py_find_range [of val th_sep "th_pos + 1"]
      by auto
    from "1.IH" [OF False nl "1.prems"(1) this] False nl
    show ?thesis by (subst th_loop.simps) simp
  qed
qed


lemma from_string_rejects:
  fixes self :: "'a localeconv_scheme"
  defines "th \<equiv> (if thousands_sep self = [] then ''.'' else thousands_sep self)"
  assumes "decimal_left_of_thousands val th (decimal_point self)"
  shows "FloatConverter_from_string self val =
     Inl (ValidationError
       (if 1 < py_count val (decimal_point self)
        then ''You have more than one decimal separator ('' @ [CHR 0x22] @ decimal_point self @
             [CHR 0x22] @ '')  in your number '' @ [CHR 0x22] @ val @ [CHR 0x22]
        else ''The decimal separator is to the left of the thousand separator''))"
proof -
  define dec where "dec = decimal_point self"
  from assms(2) obtain q where q: "occurs_at val th q" "0 \<le> py_find val dec 0"
    "py_find val dec 0 < int q"
    by (auto simp: decimal_left_of_thousands_def dec_def)
  have thc: "0 < py_count val th" using q(1) by (rule py_count_pos)
  from q(2) have "py_find val dec 0 \<noteq> - 1" by simp
  then have "occurs_at val dec (nat (py_find val dec 0))" by (rule py_find_occurs)
  then have decc: "0 < py_count val dec" by (rule py_count_pos)
  from q(2) have idx: "py_index val dec = Inr (py_find val dec 0)"
    by (auto simp: py_index_def Let_def)
  from py_find_complete [OF q(1), of 0] py_find_range [of val th 0]
  have "py_find val th 0 \<noteq> - 1" "0 \<le> py_find val th 0" "py_find val th 0 \<le> int q" by auto
  from th_loop_fails [OF q(1) q(3) this]
  have "th_loop val th (py_find val dec 0) (py_find val th 0) =
    Inl (ValidationError ''The decimal separator is to the left of the thousand separator'')" .
  with thc decc idx show ?thesis
    unfolding FloatConverter_from_string_def Let_def th_def [symmetric] dec_def [symmetric]
    by simp
qed

lemma from_string_accepts:
  fixes self :: "'a localeconv_scheme"
  defines "th \<equiv> (if thousands_sep self = [] then ''.'' else thousands_sep self)"
  assumes "py_count val (decimal_point self) \<le> 1"
    and "\<not> decimal_left_of_thousands val th (decimal_point self)"
  shows "FloatConverter_from_string self val =
     (case py_float (py_replace (py_replace val th []) (decimal_point self) ''.'') of
        None \<Rightarrow> Inl (ValidationError ''This field requires a number'')
      | Some x \<Rightarrow> Inr x)"
proof -
  define dec where "dec = decimal_point self"
  have chk: "th_loop val th (py_find val dec 0) (py_find val th 0) = Inr ()"
    if "0 < py_count val dec"
  proof (rule th_loop_passes)
    fix q assume occ: "occurs_at val th q"
    then have "q \<in> {0..length val}" by (simp add: occurs_at_def)
    moreover from that py_count_pos_find [of val dec] py_find_range [of val dec 0]
    have "0 \<le> py_find val dec 0" by auto
    ultimately show "\<not> py_find val dec 0 < int q"
      using assms(3) occ by (auto simp: decimal_left_of_thousands_def dec_def)
  next
    show "py_find val th 0 = - 1 \<or> (0 \<le> py_find val th 0 \<and> occurs_at val th (nat (py_find val th 0)))"
      using py_find_occurs [of val th 0] py_find_range [of val th 0] by auto
  qed
  have idx: "py_index val dec = Inr (py_find val dec 0)" if "0 < py_count val dec"
    using that py_count_pos_find [of val dec] by (simp add: py_index_def Let_def)
  from assms(2) have "\<not> 1 < py_count val dec" by (simp add: dec_def)
  with chk idx show ?thesis
    unfolding FloatConverter_from_string_def Let_def th_def [symmetric] dec_def [symmetric]
    by simp
qed

lemma find_from_single:
  "count_from [c] s \<le> 1 \<Longrightarrow> occurs_at s [c] q \<Longrightarrow> find_from [c] s off = int (off + q)"
proof (induction s arbitrary: q off)
  case Nil
  then show ?case by (simp add: occurs_at_def)
next
  case (Cons x xs)
  show ?case
  proof (cases "x = c")
    case True
    with Cons.prems(1) have z: "count_from [c] xs = 0" by simp
    have "q = 0"
    proof (cases q)
      case 0
      then show ?thesis .
    next
      case (Suc q')
      with Cons.prems(2) have "occurs_at xs [c] q'" by (simp add: occurs_at_def)
      from count_from_pos [OF _ this] z show ?thesis by simp
    qed
    with True show ?thesis by simp
  next
    case False
    with Cons.prems(2) obtain q' where q': "q = Suc q'"
      by (cases q) (auto simp: occurs_at_def)
    with Cons.prems False have "count_from [c] xs \<le> 1" "occurs_at xs [c] q'"
      by (auto simp: occurs_at_def)
    from Cons.IH [OF this, of "Suc off"] False q' show ?thesis by simp
  qed
qed

lemma two_occurrences_count:
  assumes "occurs_at s [c] i" "occurs_at s [c] j" "i \<noteq> j"
  shows "1 < py_count s [c]"
proof (rule ccontr)
  assume "\<not> 1 < py_count s [c]"
  then have "count_from [c] s \<le> 1" by (simp add: py_count_def)
  from find_from_single [OF this assms(1), of 0] find_from_single [OF this assms(2), of 0]
  have "i = j" by simp
  with assms(3) show False by simp
qed

text \<open>
  C2: a text in which the locale's decimal separator occurs more than once, counted as
  \<^verbatim>\<open>str.count\<close> does, is refused with the validation error of lines 151 to 153,
  whatever the thousands separator is; no number is returned. For a separator of one
  character that is every text with the separator at two different places.
\<close>

theorem from_string_multiple_decimal_separators:
  fixes self :: "'a localeconv_scheme"
  shows "(1 < py_count val (decimal_point self) \<longrightarrow>
      FloatConverter_from_string self val =
        Inl (ValidationError
          (''You have more than one decimal separator ('' @ [CHR 0x22] @ decimal_point self @
           [CHR 0x22] @ '')  in your number '' @ [CHR 0x22] @ val @ [CHR 0x22]))) \<and>
    (decimal_point self = [c] \<and> occurs_at val [c] i \<and> occurs_at val [c] j \<and> i \<noteq> j \<longrightarrow>
      FloatConverter_from_string self val =
        Inl (ValidationError
          (''You have more than one decimal separator ('' @ [CHR 0x22] @ [c] @
           [CHR 0x22] @ '')  in your number '' @ [CHR 0x22] @ val @ [CHR 0x22])))"
proof -
  have "FloatConverter_from_string self val =
        Inl (ValidationError
          (''You have more than one decimal separator ('' @ [CHR 0x22] @ decimal_point self @
           [CHR 0x22] @ '')  in your number '' @ [CHR 0x22] @ val @ [CHR 0x22]))"
    if "1 < py_count val (decimal_point self)"
    using that by (simp add: FloatConverter_from_string_def Let_def)
  then show ?thesis
    using two_occurrences_count [of val c i j] by auto
qed

theorem from_string_multiple_decimal_separators_witness:
  "1 < py_count ''1.2.3'' (decimal_point (numeric_locale [] ''.'')) \<and>
   occurs_at ''1.2.3'' ''.'' 1 \<and> occurs_at ''1.2.3'' ''.'' 3 \<and>
   FloatConverter_from_string (numeric_locale [] ''.'') ''1.2.3'' =
     Inl (ValidationError
       (''You have more than one decimal separator ('' @ [CHR 0x22] @ ''.'' @
        [CHR 0x22] @ '')  in your number '' @ [CHR 0x22] @ ''1.2.3'' @ [CHR 0x22]))"
proof -
  have h: "1 < py_count ''1.2.3'' (decimal_point (numeric_locale [] ''.''))"
    by (simp add: numeric_locale_def py_count_def)
  have o: "occurs_at ''1.2.3'' ''.'' 1" "occurs_at ''1.2.3'' ''.'' 3"
    by (simp_all add: occurs_at_def)
  from from_string_multiple_decimal_separators [of "''1.2.3''" "numeric_locale [] ''.''"] h
  have "FloatConverter_from_string (numeric_locale [] ''.'') ''1.2.3'' =
     Inl (ValidationError
       (''You have more than one decimal separator ('' @ [CHR 0x22] @
        decimal_point (numeric_locale [] ''.'') @
        [CHR 0x22] @ '')  in your number '' @ [CHR 0x22] @ ''1.2.3'' @ [CHR 0x22]))"
    by blast
  with h o show ?thesis
    by (simp add: numeric_locale_def)
qed

text \<open>
  C3: a text whose decimal separator stands to the left of an occurrence of the
  thousands separator (taken as \<^verbatim>\<open>.\<close> when the locale has none) is refused with a
  validation error, so no accepted text has a thousands separator after the decimal
  point.
\<close>

theorem from_string_decimal_left_of_thousands:
  fixes self :: "'a localeconv_scheme"
  shows "(decimal_left_of_thousands val
       (if thousands_sep self = [] then ''.'' else thousands_sep self) (decimal_point self) \<longrightarrow>
     FloatConverter_from_string self val =
       Inl (ValidationError
         (if 1 < py_count val (decimal_point self)
          then ''You have more than one decimal separator ('' @ [CHR 0x22] @
               decimal_point self @ [CHR 0x22] @ '')  in your number '' @ [CHR 0x22] @ val @
               [CHR 0x22]
          else ''The decimal separator is to the left of the thousand separator''))) \<and>
    (\<forall>x. FloatConverter_from_string self val = Inr x \<longrightarrow>
       \<not> decimal_left_of_thousands val
         (if thousands_sep self = [] then ''.'' else thousands_sep self) (decimal_point self))"
  using from_string_rejects [of val self] by auto

theorem from_string_decimal_left_of_thousands_witness:
  "decimal_left_of_thousands ''1.234,56'' '','' ''.'' \<and>
   py_count ''1.234,56'' ''.'' = 1 \<and>
   FloatConverter_from_string (numeric_locale '','' ''.'') ''1.234,56'' =
     Inl (ValidationError ''The decimal separator is to the left of the thousand separator'')"
proof -
  have occ: "occurs_at ''1.234,56'' '','' 5" by (simp add: occurs_at_def)
  have "5 \<in> {0..length ''1.234,56''}" by simp
  with occ have h: "decimal_left_of_thousands ''1.234,56'' '','' ''.''"
    unfolding decimal_left_of_thousands_def by (rule_tac x = 5 in bexI) (simp_all add: py_find_def)
  have c: "py_count ''1.234,56'' ''.'' = 1" by (simp add: py_count_def)
  from from_string_decimal_left_of_thousands [of "''1.234,56''" "numeric_locale '','' ''.''"] h c
  show ?thesis by (simp add: numeric_locale_def)
qed

lemma decimal_left_of_thousands_find:
  "decimal_left_of_thousands val th_sep dec_sep \<longleftrightarrow>
     0 \<le> py_find val dec_sep 0 \<and> py_find val th_sep (py_find val dec_sep 0 + 1) \<noteq> - 1"
proof
  assume "decimal_left_of_thousands val th_sep dec_sep"
  then obtain q where q: "occurs_at val th_sep q" "0 \<le> py_find val dec_sep 0"
    "py_find val dec_sep 0 < int q"
    by (auto simp: decimal_left_of_thousands_def)
  from py_find_complete [OF q(1), of "py_find val dec_sep 0 + 1"] q(2,3)
  show "0 \<le> py_find val dec_sep 0 \<and> py_find val th_sep (py_find val dec_sep 0 + 1) \<noteq> - 1"
    by simp
next
  assume a: "0 \<le> py_find val dec_sep 0 \<and> py_find val th_sep (py_find val dec_sep 0 + 1) \<noteq> - 1"
  define p where "p = py_find val th_sep (py_find val dec_sep 0 + 1)"
  from a have "p \<noteq> - 1" by (simp add: p_def)
  with py_find_occurs [of val th_sep "py_find val dec_sep 0 + 1"]
    py_find_range [of val th_sep "py_find val dec_sep 0 + 1"]
  have "occurs_at val th_sep (nat p)" "py_find val dec_sep 0 < int (nat p)"
    by (auto simp: p_def)
  moreover from this(1) have "nat p \<in> {0..length val}" by (simp add: occurs_at_def)
  ultimately show "decimal_left_of_thousands val th_sep dec_sep"
    using a unfolding decimal_left_of_thousands_def by blast
qed

lemma same_separator_in_order:
  assumes "py_count val [c] \<le> 1"
  shows "\<not> decimal_left_of_thousands val [c] [c]"
proof
  assume "decimal_left_of_thousands val [c] [c]"
  then obtain q where q: "occurs_at val [c] q" "py_find val [c] 0 < int q"
    by (auto simp: decimal_left_of_thousands_def)
  from assms have "count_from [c] val \<le> 1" by (simp add: py_count_def)
  from find_from_single [OF this q(1), of 0] q(2) show False
    by (simp add: py_find_def)
qed

lemma replace_from_single: "replace_from [c] [] s = filter (\<lambda>x. x \<noteq> c) s"
  by (induction s) auto

lemma replace_from_absent: "c \<notin> set s \<Longrightarrow> replace_from [c] new s = s"
  by (induction s) auto

lemma py_float_example: "py_float ''1234.56'' = Some (binary64 (123456 / 100))"
  by (simp add: py_float_def py_strip_def is_space_def float_unsigned_def lower_char_def
      float_decimal_def is_digit_def float_exponent_def digits_val_def digit_val_def Let_def)

lemma floor_log2_15: "floor_log2 15 = 3"
  by code_simp

lemma round_half_even_of_int: "round_half_even (of_int n) = n"
  by (simp add: round_half_even_def)

lemma binary64_15: "binary64 15 = Finite 15"
proof -
  have e: "max (floor_log2 \<bar>15\<bar> - 52) (- 1074) = - 49"
    by (simp add: floor_log2_15)
  have a: "15 / 2 powi (- 49) = (of_int (15 * 2 ^ 49) :: rat)"
    by (simp add: power_int_minus)
  have b: "(of_int (15 * 2 ^ 49) :: rat) * 2 powi (- 49) = 15"
    by (simp add: power_int_minus)
  from e show ?thesis
    unfolding binary64_def Let_def
    by (simp only: a b round_half_even_of_int abs_numeral) simp
qed

text \<open>
  C4: for a text with at most one decimal separator and no thousands separator to the
  right of it, \<^verbatim>\<open>from_string\<close> removes every thousands separator, replaces the decimal
  separator by a point and reads the result with \<^verbatim>\<open>float\<close>; a text that \<^verbatim>\<open>float\<close>
  refuses gives the validation error of line 170. With \<^verbatim>\<open>,\<close> and \<^verbatim>\<open>.\<close> as separators,
  \<^verbatim>\<open>1,234.56\<close> gives the float that the literal \<^verbatim>\<open>1234.56\<close> denotes.
\<close>

theorem from_string_wellformed:
  fixes self :: "'a localeconv_scheme"
  shows "(py_count val (decimal_point self) \<le> 1 \<and>
      \<not> decimal_left_of_thousands val
          (if thousands_sep self = [] then ''.'' else thousands_sep self) (decimal_point self) \<longrightarrow>
      FloatConverter_from_string self val =
        (case py_float
            (py_replace
               (py_replace val (if thousands_sep self = [] then ''.'' else thousands_sep self) [])
               (decimal_point self) ''.'') of
           None \<Rightarrow> Inl (ValidationError ''This field requires a number'')
         | Some x \<Rightarrow> Inr x)) \<and>
    FloatConverter_from_string (numeric_locale '','' ''.'') ''1,234.56'' =
      Inr (binary64 (123456 / 100))"
proof
  show "py_count val (decimal_point self) \<le> 1 \<and>
      \<not> decimal_left_of_thousands val
          (if thousands_sep self = [] then ''.'' else thousands_sep self) (decimal_point self) \<longrightarrow>
      FloatConverter_from_string self val =
        (case py_float
            (py_replace
               (py_replace val (if thousands_sep self = [] then ''.'' else thousands_sep self) [])
               (decimal_point self) ''.'') of
           None \<Rightarrow> Inl (ValidationError ''This field requires a number'')
         | Some x \<Rightarrow> Inr x)"
    using from_string_accepts [of val self] by blast
next
  have c: "py_count ''1,234.56'' (decimal_point (numeric_locale '','' ''.'')) \<le> 1"
    by (simp add: numeric_locale_def py_count_def)
  have o: "\<not> decimal_left_of_thousands ''1,234.56''
      (if thousands_sep (numeric_locale '','' ''.'') = [] then ''.''
       else thousands_sep (numeric_locale '','' ''.''))
      (decimal_point (numeric_locale '','' ''.''))"
    by (simp add: decimal_left_of_thousands_find numeric_locale_def py_find_def)
  from from_string_accepts [OF c o]
  show "FloatConverter_from_string (numeric_locale '','' ''.'') ''1,234.56'' =
      Inr (binary64 (123456 / 100))"
    by (simp add: numeric_locale_def py_replace_def py_float_example)
qed

theorem from_string_wellformed_witness:
  "py_count ''12,3x4.5'' ''.'' \<le> 1 \<and>
   \<not> decimal_left_of_thousands ''12,3x4.5'' '','' ''.'' \<and>
   py_replace (py_replace ''12,3x4.5'' '','' []) ''.'' ''.'' = ''123x4.5'' \<and>
   py_float ''123x4.5'' = None \<and>
   FloatConverter_from_string (numeric_locale '','' ''.'') ''12,3x4.5'' =
     Inl (ValidationError ''This field requires a number'')"
proof -
  have c: "py_count ''12,3x4.5'' ''.'' \<le> 1"
    by (simp add: py_count_def)
  have o: "\<not> decimal_left_of_thousands ''12,3x4.5'' '','' ''.''"
    by (simp add: decimal_left_of_thousands_find py_find_def)
  have r: "py_replace (py_replace ''12,3x4.5'' '','' []) ''.'' ''.'' = ''123x4.5''"
    by (simp add: py_replace_def)
  have f: "py_float ''123x4.5'' = None"
    by (simp add: py_float_def py_strip_def is_space_def float_unsigned_def lower_char_def
      float_decimal_def is_digit_def float_exponent_def digits_val_def digit_val_def Let_def)
  from from_string_wellformed [of "''12,3x4.5''" "numeric_locale '','' ''.''"] c o r f
  show ?thesis by (simp add: numeric_locale_def)
qed

text \<open>
  C9: when the locale has no thousands separator and the decimal separator is a point,
  the point is taken for both. A text with at most one point passes the checks and
  every point is removed before \<^verbatim>\<open>float\<close> reads it: \<^verbatim>\<open>1.5\<close> is accepted and gives
  \<^verbatim>\<open>15.0\<close>, not \<^verbatim>\<open>1.5\<close>.
\<close>

theorem from_string_no_thousands_sep:
  fixes self :: "'a localeconv_scheme"
  assumes "thousands_sep self = []" and "decimal_point self = ''.''"
  shows "(py_count val ''.'' \<le> 1 \<longrightarrow>
      FloatConverter_from_string self val =
        (case py_float (filter (\<lambda>c. c \<noteq> CHR ''.'') val) of
           None \<Rightarrow> Inl (ValidationError ''This field requires a number'')
         | Some x \<Rightarrow> Inr x)) \<and>
    FloatConverter_from_string self ''1.5'' = Inr (Finite 15) \<and>
    FloatConverter_from_string self ''1.5'' \<noteq> Inr (Finite (3 / 2))"
proof -
  have g: "FloatConverter_from_string self v =
        (case py_float (filter (\<lambda>c. c \<noteq> CHR ''.'') v) of
           None \<Rightarrow> Inl (ValidationError ''This field requires a number'')
         | Some x \<Rightarrow> Inr x)" if "py_count v ''.'' \<le> 1" for v
  proof -
    from that have "\<not> decimal_left_of_thousands v ''.'' ''.''"
      by (rule same_separator_in_order)
    with that assms from_string_accepts [of v self]
    show ?thesis
      by (simp add: py_replace_def replace_from_single replace_from_absent)
  qed
  have "py_count ''1.5'' ''.'' \<le> 1" by (simp add: py_count_def)
  from g [OF this] have "FloatConverter_from_string self ''1.5'' = Inr (Finite 15)"
    by (simp add: py_float_def py_strip_def is_space_def float_unsigned_def lower_char_def
      float_decimal_def is_digit_def float_exponent_def digits_val_def digit_val_def Let_def
      binary64_15)
  with g show ?thesis by simp
qed

theorem from_string_no_thousands_sep_witness:
  "thousands_sep (numeric_locale [] ''.'') = [] \<and>
   decimal_point (numeric_locale [] ''.'') = ''.'' \<and>
   py_count ''1.5'' ''.'' \<le> 1 \<and>
   FloatConverter_from_string (numeric_locale [] ''.'') ''1.5'' = Inr (Finite 15)"
proof -
  have t: "thousands_sep (numeric_locale [] ''.'') = []"
    and d: "decimal_point (numeric_locale [] ''.'') = ''.''"
    by (simp_all add: numeric_locale_def)
  have c: "py_count ''1.5'' ''.'' \<le> 1" by (simp add: py_count_def)
  from from_string_no_thousands_sep [OF t d, of "''1.5''"]
  have "FloatConverter_from_string (numeric_locale [] ''.'') ''1.5'' = Inr (Finite 15)"
    by blast
  with t d c show ?thesis by blast
qed

section \<open>Properties of the registry and the converters\<close>

lemma converter_lookup:
  "converter h T_str = Some (StringConverter h)"
  "converter h T_int = Some (IntConverter h)"
  "converter h T_bool = Some BoolConverter"
  "converter h T_float = Some (FloatConverter h)"
  "converter h T_date = Some (DateConverter h)"
  "converter h T_object = Some ObjectConverter"
  "converter h (T_other cls) = None"
  by (simp_all add: converter_def add_def StringConverter_def IntConverter_def BoolConverter_def
      FloatConverter_def DateConverter_def ObjectConverter_def)

text \<open>
  C5: \<^verbatim>\<open>BoolConverter.as_string\<close> returns the builtin \<^verbatim>\<open>str\<close> itself for every value,
  with or without a format argument, also when it is reached through the registry; the
  result is no text, and it does not depend on the value.
\<close>

theorem bool_as_string_returns_str:
  "BoolConverter_as_string val [] = Inr Builtin_str \<and>
   BoolConverter_as_string val [format] = Inr Builtin_str \<and>
   ConverterRegistry_as_string (converter h) T_bool (VBool b) [] = Inr Builtin_str \<and>
   ConverterRegistry_as_string (converter h) T_bool (VBool b) [format] = Inr Builtin_str \<and>
   Builtin_str \<noteq> VStr s"
  by (simp add: BoolConverter_as_string_def ConverterRegistry_as_string_def converter_lookup
      BoolConverter_def isinstance_def issubclass_def)




text \<open>
  C10: with a type that has no entry in the dictionary, \<^verbatim>\<open>as_string\<close> and
  \<^verbatim>\<open>from_string\<close> of the registry raise \<^verbatim>\<open>KeyError\<close>: no validation error, and the data
  is not passed through. In the module's own registry that is every type other than
  the six of the converter classes.
\<close>

theorem unregistered_kind_raises_KeyError:
  "(self converter_type = None \<longrightarrow>
      ConverterRegistry_as_string self converter_type data args = Inl KeyError \<and>
      ConverterRegistry_from_string self converter_type val args = Inl KeyError) \<and>
   ConverterRegistry_as_string (converter h) (T_other cls) data args = Inl KeyError \<and>
   ConverterRegistry_from_string (converter h) (T_other cls) val args = Inl KeyError \<and>
   KeyError \<noteq> ValidationError msg"
  by (simp add: ConverterRegistry_as_string_def ConverterRegistry_from_string_def
      converter_lookup)

theorem unregistered_kind_raises_KeyError_witness:
  "converter (example_host us_conv) (T_other ''list'') = None \<and>
   ConverterRegistry_as_string (converter (example_host us_conv)) (T_other ''list'')
     (VObject ''list'') [] = Inl KeyError \<and>
   ConverterRegistry_from_string (converter (example_host us_conv)) (T_other ''list'')
     ''[]'' [] = Inl KeyError"
proof -
  have n: "converter (example_host us_conv) (T_other ''list'') = None"
    by (simp add: converter_lookup)
  from unregistered_kind_raises_KeyError
    [of "converter (example_host us_conv)" "T_other ''list''" "VObject ''list''" "[]" "''[]''"] n
  show ?thesis by blast
qed

lemma digit_char_props:
  assumes "d < 10"
  shows "is_digit (digit_char d)" and "digit_val (digit_char d) = d"
proof -
  from assms have "d \<in> {0, 1, 2, 3, 4, 5, 6, 7, 8, 9}" by auto
  then show "is_digit (digit_char d)" and "digit_val (digit_char d) = d"
    by (auto simp: is_digit_def digit_char_def digit_val_def)
qed

lemma digits_all: "list_all is_digit (digits n) \<and> digits n \<noteq> []"
proof (induction n rule: digits.induct)
  case (1 n)
  show ?case
  proof (cases "n < 10")
    case True
    then show ?thesis by (simp add: digits.simps [of n] digit_char_props)
  next
    case False
    with "1.IH" show ?thesis by (simp add: digits.simps [of n] digit_char_props)
  qed
qed

lemma digits_val_snoc: "digits_val (xs @ [c]) = 10 * digits_val xs + digit_val c"
  by (simp add: digits_val_def)

lemma digits_val_digits: "digits_val (digits n) = n"
proof (induction n rule: digits.induct)
  case (1 n)
  show ?case
  proof (cases "n < 10")
    case True
    then show ?thesis by (simp add: digits.simps [of n] digits_val_def digit_char_props)
  next
    case False
    with "1.IH" show ?thesis
      by (simp add: digits.simps [of n] digits_val_snoc digit_char_props)
  qed
qed

lemma unsigned_int_digits: "unsigned_int (digits n) = Some n"
  by (simp add: unsigned_int_def digits_all digits_val_digits)

lemma is_digit_plain: "is_digit c \<Longrightarrow> \<not> is_space c \<and> c \<noteq> CHR ''-'' \<and> c \<noteq> CHR ''+''"
  by (auto simp: is_digit_def is_space_def)

lemma py_strip_id:
  assumes "s \<noteq> []" "\<not> is_space (hd s)" "\<not> is_space (last s)"
  shows "py_strip s = s"
proof -
  from assms have "dropWhile is_space s = s"
    by (cases s) auto
  moreover from assms have "dropWhile is_space (rev s) = rev s"
    by (cases "rev s") (auto simp: hd_rev)
  ultimately show ?thesis by (simp add: py_strip_def)
qed

lemma py_int_percent_d: "py_int (percent_d n) = Some n"
proof -
  define m where "m = (if n < 0 then nat (- n) else nat n)"
  obtain c cs where ds: "digits m = c # cs"
    using digits_all [of m] by (cases "digits m") auto
  with digits_all [of m] have c: "is_digit c" and l: "is_digit (last (c # cs))"
    by (auto simp: list_all_iff)
  have u: "unsigned_int (c # cs) = Some m"
    using unsigned_int_digits [of m] by (simp add: ds)
  show ?thesis
  proof (cases "n < 0")
    case True
    then have p: "percent_d n = CHR ''-'' # c # cs"
      by (simp add: percent_d_def m_def ds [symmetric])
    have "py_strip (CHR ''-'' # c # cs) = CHR ''-'' # c # cs"
      using l by (intro py_strip_id) (auto simp: is_space_def dest: is_digit_plain)
    with True u show ?thesis
      by (simp add: py_int_def p m_def)
  next
    case False
    then have p: "percent_d n = c # cs"
      by (simp add: percent_d_def m_def ds [symmetric])
    have "py_strip (c # cs) = c # cs"
      using l c by (intro py_strip_id) (auto dest: is_digit_plain)
    with False u is_digit_plain [OF c] show ?thesis
      by (simp add: py_int_def p m_def)
  qed
qed

text \<open>
  C8: when the locale's \<^verbatim>\<open>%d\<close> formatting of the integer \<open>n\<close> adds no separator, so that
  it gives the plain decimal digits of \<open>n\<close>, \<^verbatim>\<open>as_string\<close> for the integer type gives
  these digits and \<^verbatim>\<open>from_string\<close> reads them back as \<open>n\<close>.
\<close>

theorem int_round_trip:
  "locale_format h ''%d'' (VInt n) True = Inr (percent_d n) \<Longrightarrow>
   ConverterRegistry_as_string (converter h) T_int (VInt n) [] = Inr (VStr (percent_d n)) \<and>
   ConverterRegistry_from_string (converter h) T_int (percent_d n) [] = Inr (VInt n)"
  by (simp add: ConverterRegistry_as_string_def ConverterRegistry_from_string_def
      converter_lookup IntConverter_def IntConverter_as_string_def IntConverter_from_string_def
      isinstance_def issubclass_def lformat_def to_VStr_def py_int_percent_d)

theorem int_round_trip_witness:
  "locale_format (example_host us_conv) ''%d'' (VInt (- 1203)) True = Inr ''-1203'' \<and>
   ConverterRegistry_as_string (converter (example_host us_conv)) T_int (VInt (- 1203)) [] =
     Inr (VStr ''-1203'') \<and>
   ConverterRegistry_from_string (converter (example_host us_conv)) T_int ''-1203'' [] =
     Inr (VInt (- 1203))"
proof -
  have p: "percent_d (- 1203) = ''-1203''"
    by code_simp
  have f: "locale_format (example_host us_conv) ''%d'' (VInt (- 1203)) True =
      Inr (percent_d (- 1203))"
    by (simp add: example_host_def plain_format_def)
  from int_round_trip [OF f] f show ?thesis
    by (simp add: p)
qed

section \<open>Properties of format\_price\<close>

lemma group_loop_empty: "group_loop [] grp groups intparts = intparts"
  by (simp add: group_loop.simps [of "[]"])

lemma groups_right_empty: "groups_right [] grp rest = []"
  by (simp add: groups_right.simps [of "[]"])

lemma group_loop_groups_right:
  "group_loop intpart grp (rev rest) intparts = rev (groups_right intpart grp rest) @ intparts"
proof (induction intpart grp rest arbitrary: intparts rule: groups_right.induct)
  case (1 intpart grp rest)
  show ?case
  proof (cases "intpart = []")
    case True
    then show ?thesis
      by (simp add: group_loop_empty groups_right_empty)
  next
    case False
    note IH = "1.IH" [OF False]
    show ?thesis
    proof (cases rest)
      case Nil
      with False IH [of "slice_last grp intpart # intparts"] show ?thesis
        by (simp add: group_loop.simps [of intpart] groups_right.simps [of intpart])
    next
      case (Cons r rs)
      with False IH [of "slice_last grp intpart # intparts"] show ?thesis
        by (simp add: group_loop.simps [of intpart] groups_right.simps [of intpart] Let_def)
    qed
  qed
qed

lemma group_digits_groups_right:
  "group_digits (g # gs) intpart = rev (groups_right intpart g gs)"
  "group_digits [] intpart = rev (groups_right intpart 3 [])"
  using group_loop_groups_right [of intpart g gs "[]"] group_loop_groups_right [of intpart 3 "[]" "[]"]
  by (simp_all add: group_digits_def)

lemma slices_append: "slice_but_last n s @ slice_last n s = s"
  by (simp add: slice_but_last_def slice_last_def)

lemma concat_groups_right: "concat (rev (groups_right intpart grp rest)) = intpart"
proof (induction intpart grp rest rule: groups_right.induct)
  case (1 intpart grp rest)
  show ?case
  proof (cases "intpart = []")
    case True
    then show ?thesis by (simp add: groups_right_empty)
  next
    case False
    with "1.IH" [OF False] show ?thesis
      by (simp add: groups_right.simps [of intpart] slices_append)
  qed
qed

lemma groups_right_Nil: "groups_right intpart grp rest = [] \<longleftrightarrow> intpart = []"
  by (simp add: groups_right.simps [of intpart])

lemma nth_group_size_0: "0 < g \<Longrightarrow> nth_group_size (g # rest) 0 = g"
  by (simp add: nth_group_size_def)

lemma nth_group_size_Suc:
  "0 < g \<Longrightarrow>
   nth_group_size (g # rest) (Suc k) =
     nth_group_size ((case rest of [] \<Rightarrow> g | r # rs \<Rightarrow> if r \<noteq> 0 then r else g) # tl rest) k"
  by (cases rest) (simp_all add: nth_group_size_def)

lemma length_groups_right:
  "0 < grp \<Longrightarrow> k < length (groups_right intpart grp rest) \<Longrightarrow>
   (if Suc k < length (groups_right intpart grp rest)
    then length (groups_right intpart grp rest ! k) = nth_group_size (grp # rest) k
    else 0 < length (groups_right intpart grp rest ! k) \<and>
      length (groups_right intpart grp rest ! k) \<le> nth_group_size (grp # rest) k)"
proof (induction intpart grp rest arbitrary: k rule: groups_right.induct)
  case (1 intpart grp rest)
  from "1.prems"(2) have ne: "intpart \<noteq> []"
    by (auto simp: groups_right.simps [of intpart])
  define grp' where "grp' = (case rest of [] \<Rightarrow> grp | r # rs \<Rightarrow> if r \<noteq> 0 then r else grp)"
  define R where "R = groups_right (slice_but_last grp intpart) grp' (tl rest)"
  have unf: "groups_right intpart grp rest = slice_last grp intpart # R"
    using ne by (simp add: groups_right.simps [of intpart] R_def grp'_def)
  have pos: "0 < grp'"
    using "1.prems"(1) by (simp add: grp'_def split: list.split)
  show ?case
  proof (cases k)
    case 0
    have "R = [] \<longleftrightarrow> length intpart \<le> grp"
      using "1.prems"(1) by (auto simp: R_def groups_right_Nil slice_but_last_def)
    with "1.prems"(1) ne 0 show ?thesis
      by (auto simp: unf nth_group_size_0 slice_last_def)
  next
    case (Suc k')
    with "1.prems"(2) have "k' < length R" by (simp add: unf)
    then have kk: "k' < length (groups_right (slice_but_last grp intpart)
        (case rest of [] \<Rightarrow> grp | r # rs \<Rightarrow> if r \<noteq> 0 then r else grp) (tl rest))"
      by (simp add: R_def grp'_def)
    from pos have pos': "0 < (case rest of [] \<Rightarrow> grp | r # rs \<Rightarrow> if r \<noteq> 0 then r else grp)"
      by (simp add: grp'_def)
    have IH: "if Suc k' < length R
      then length (R ! k') = nth_group_size (grp' # tl rest) k'
      else 0 < length (R ! k') \<and> length (R ! k') \<le> nth_group_size (grp' # tl rest) k'"
      using "1.IH" [OF ne pos' kk] unfolding R_def grp'_def .
    have link: "nth_group_size (grp # rest) (Suc k') = nth_group_size (grp' # tl rest) k'"
      using nth_group_size_Suc [OF "1.prems"(1)] unfolding grp'_def .
    from IH show ?thesis
      unfolding unf Suc link by (auto split: if_splits)
  qed
qed


lemma format_price_Finite:
  "format_price h (Finite v) symbol =
     Inr (case (if 0 < v then positive_set h else negative_set h) of
            (cs_precedes, sep_by_space, sign) \<Rightarrow>
              with_symbol h symbol cs_precedes sep_by_space (sign @ unsigned_text h v))"
  by (simp add: format_price_def positive_set_def negative_set_def unsigned_text_def
      with_symbol_def Let_def)

lemma group_digits_single: "group_digits grouping [c] = [[c]]"
proof -
  have "groups_right [c] g rest = [[c]]" for g rest
    by (simp add: groups_right.simps [of "[c]"] groups_right_empty slice_last_def
        slice_but_last_def)
  then show ?thesis
    by (cases grouping) (simp_all add: group_digits_groups_right)
qed

lemma digits_0: "digits 0 = ''0''"
  by (simp add: digits.simps [of 0] digit_char_def)

text \<open>
  C1: with the grouping \<^verbatim>\<open>[3, 0]\<close>, the separator \<^verbatim>\<open>,\<close>, the decimal point \<^verbatim>\<open>.\<close>,
  two decimals, the symbol \<^verbatim>\<open>$\<close> before the value without a space, and no positive
  sign, \<^verbatim>\<open>format_price(1234.5, symbol=True)\<close> is \<^verbatim>\<open>$1,234.50\<close>. In general, for a
  pattern that starts with a non-zero size, the groups put together give back the
  digits, every group but the leftmost has the size the pattern gives it (a zero
  repeats the size before it, and the last non-zero size serves when the pattern is
  used up), and the leftmost group is not empty and not longer than its size. An empty
  pattern stands for the size 3 throughout, and with a pattern that starts with a zero
  the digits stay in one group. The text of a whole number is its sign string and the
  groups joined by the separator.
\<close>

theorem format_price_grouping:
  "(mon_grouping (conv h) = Some [3, 0] \<and> mon_thousands_sep (conv h) = Some '','' \<and>
    mon_decimal_point (conv h) = Some ''.'' \<and> frac_digits (conv h) = Some 2 \<and>
    currency_symbol (conv h) = Some ''$'' \<and> p_cs_precedes (conv h) = Some True \<and>
    p_sep_by_space (conv h) = Some False \<and>
    (positive_sign (conv h) = None \<or> positive_sign (conv h) = Some []) \<longrightarrow>
    format_price h (Finite (12345 / 10)) True = Inr ''$1,234.50'') \<and>
   (0 < g \<and> intpart \<noteq> [] \<longrightarrow>
    concat (group_digits (g # gs) intpart) = intpart \<and>
    (\<forall>k < length (group_digits (g # gs) intpart).
       if Suc k < length (group_digits (g # gs) intpart)
       then length (rev (group_digits (g # gs) intpart) ! k) = nth_group_size (g # gs) k
       else 0 < length (rev (group_digits (g # gs) intpart) ! k) \<and>
         length (rev (group_digits (g # gs) intpart) ! k) \<le> nth_group_size (g # gs) k)) \<and>
   group_digits [] intpart = group_digits [3] intpart \<and>
   (intpart \<noteq> [] \<longrightarrow> group_digits (0 # gs) intpart = [intpart]) \<and>
   format_price h (Finite (of_int n)) False =
     Inr ((if 0 < n then get_default (positive_sign (conv h)) []
           else get_default (negative_sign (conv h)) ''-'') @
          py_join (get_default (mon_thousands_sep (conv h)) ''.'')
            (group_digits (get_default (mon_grouping (conv h)) []) (digits (nat \<bar>n\<bar>))))"
proof (intro conjI impI)
  assume a: "mon_grouping (conv h) = Some [3, 0] \<and> mon_thousands_sep (conv h) = Some '','' \<and>
    mon_decimal_point (conv h) = Some ''.'' \<and> frac_digits (conv h) = Some 2 \<and>
    currency_symbol (conv h) = Some ''$'' \<and> p_cs_precedes (conv h) = Some True \<and>
    p_sep_by_space (conv h) = Some False \<and>
    (positive_sign (conv h) = None \<or> positive_sign (conv h) = Some [])"
  have d: "digits 1234 = ''1234''"
    by (simp add: digits.simps [of "numeral _"] digits.simps [of "Suc 0"] digit_char_def)
  have g: "group_digits [3, 0] ''1234'' = [''1'', ''234'']"
    by code_simp
  have "\<bar>2469 / 2\<bar> * 10 ^ 2 = (of_int 123450 :: rat)"
    by simp
  then have r: "round_half_even (\<bar>2469 / 2\<bar> * 10 ^ 2) = 123450"
    by (simp only: round_half_even_of_int)
  have "digits 123450 = ''123450''"
    by (simp add: digits.simps [of "numeral _"] digits.simps [of "Suc 0"] digit_char_def)
  then have f: "fmt_f 2 (2469 / 2) = ''1234.50''"
    unfolding fmt_f_def Let_def r by simp
  have fl: "\<lfloor>2469 / 2 :: rat\<rfloor> = 1234"
    by (simp add: floor_eq_iff)
  have ps: "get_default (positive_sign (conv h)) [] = []"
    using a by (auto simp: get_default_def)
  from a show "format_price h (Finite (12345 / 10)) True = Inr ''$1,234.50''"
    unfolding format_price_Finite
    by (simp add: positive_set_def unsigned_text_def with_symbol_def Let_def ps)
      (simp add: get_default_def fl d g f slice_last_def)
next
  assume a: "0 < g \<and> intpart \<noteq> []"
  show "concat (group_digits (g # gs) intpart) = intpart"
    by (simp add: group_digits_groups_right concat_groups_right)
  show "\<forall>k < length (group_digits (g # gs) intpart).
       if Suc k < length (group_digits (g # gs) intpart)
       then length (rev (group_digits (g # gs) intpart) ! k) = nth_group_size (g # gs) k
       else 0 < length (rev (group_digits (g # gs) intpart) ! k) \<and>
         length (rev (group_digits (g # gs) intpart) ! k) \<le> nth_group_size (g # gs) k"
  proof (intro allI impI)
    fix k
    assume "k < length (group_digits (g # gs) intpart)"
    then have kk: "k < length (groups_right intpart g gs)"
      by (simp add: group_digits_groups_right)
    from a have "0 < g" ..
    from length_groups_right [OF this kk]
    show "if Suc k < length (group_digits (g # gs) intpart)
       then length (rev (group_digits (g # gs) intpart) ! k) = nth_group_size (g # gs) k
       else 0 < length (rev (group_digits (g # gs) intpart) ! k) \<and>
         length (rev (group_digits (g # gs) intpart) ! k) \<le> nth_group_size (g # gs) k"
      by (simp only: group_digits_groups_right length_rev rev_rev_ident)
  qed
next
  show "group_digits [] intpart = group_digits [3] intpart"
    by (simp add: group_digits_groups_right)
next
  assume "intpart \<noteq> []"
  then show "group_digits (0 # gs) intpart = [intpart]"
    by (simp add: group_digits_groups_right groups_right.simps [of intpart] groups_right_empty
        slice_last_def slice_but_last_def)
next
  have "\<lfloor>\<bar>of_int n :: rat\<bar>\<rfloor> = \<bar>n\<bar>"
    by (metis floor_of_int of_int_abs)
  then show "format_price h (Finite (of_int n)) False =
     Inr ((if 0 < n then get_default (positive_sign (conv h)) []
           else get_default (negative_sign (conv h)) ''-'') @
          py_join (get_default (mon_thousands_sep (conv h)) ''.'')
            (group_digits (get_default (mon_grouping (conv h)) []) (digits (nat \<bar>n\<bar>))))"
    unfolding format_price_Finite
    by (simp add: positive_set_def negative_set_def unsigned_text_def with_symbol_def Let_def)
qed


theorem format_price_grouping_witness:
  "mon_grouping (conv (example_host price_conv)) = Some [3, 0] \<and>
   mon_thousands_sep (conv (example_host price_conv)) = Some '','' \<and>
   mon_decimal_point (conv (example_host price_conv)) = Some ''.'' \<and>
   frac_digits (conv (example_host price_conv)) = Some 2 \<and>
   currency_symbol (conv (example_host price_conv)) = Some ''$'' \<and>
   p_cs_precedes (conv (example_host price_conv)) = Some True \<and>
   p_sep_by_space (conv (example_host price_conv)) = Some False \<and>
   positive_sign (conv (example_host price_conv)) = None \<and>
   format_price (example_host price_conv) (Finite (12345 / 10)) True = Inr ''$1,234.50'' \<and>
   (0 :: nat) < 3 \<and> ''1234567'' \<noteq> [] \<and>
   group_digits [3, 2, 0] ''1234567'' = [''12'', ''34'', ''567''] \<and>
   concat (group_digits [3, 2, 0] ''1234567'') = ''1234567'' \<and>
   length (rev (group_digits [3, 2, 0] ''1234567'') ! 1) = nth_group_size [3, 2, 0] 1 \<and>
   nth_group_size [3, 2, 0] 1 = 2 \<and>
   format_price (example_host price_conv) (Finite (of_int 1234567)) False = Inr ''1,234,567''"
proof -
  note inst = format_price_grouping [of "example_host price_conv" 3 "''1234567''" "[2, 0]" 1234567]
  have p: "mon_grouping (conv (example_host price_conv)) = Some [3, 0] \<and>
    mon_thousands_sep (conv (example_host price_conv)) = Some '','' \<and>
    mon_decimal_point (conv (example_host price_conv)) = Some ''.'' \<and>
    frac_digits (conv (example_host price_conv)) = Some 2 \<and>
    currency_symbol (conv (example_host price_conv)) = Some ''$'' \<and>
    p_cs_precedes (conv (example_host price_conv)) = Some True \<and>
    p_sep_by_space (conv (example_host price_conv)) = Some False \<and>
    positive_sign (conv (example_host price_conv)) = None"
    by (simp add: example_host_def price_conv_def)
  with inst have e: "format_price (example_host price_conv) (Finite (12345 / 10)) True =
      Inr ''$1,234.50''"
    by blast
  have g: "group_digits [3, 2, 0] ''1234567'' = [''12'', ''34'', ''567'']"
    by code_simp
  have q: "(0 :: nat) < 3 \<and> ''1234567'' \<noteq> []"
    by simp
  with inst have c: "concat (group_digits [3, 2, 0] ''1234567'') = ''1234567''"
    by blast
  from inst q have "\<forall>k < length (group_digits [3, 2, 0] ''1234567'').
       if Suc k < length (group_digits [3, 2, 0] ''1234567'')
       then length (rev (group_digits [3, 2, 0] ''1234567'') ! k) = nth_group_size [3, 2, 0] k
       else 0 < length (rev (group_digits [3, 2, 0] ''1234567'') ! k) \<and>
         length (rev (group_digits [3, 2, 0] ''1234567'') ! k) \<le> nth_group_size [3, 2, 0] k"
    by blast
  then have "1 < length (group_digits [3, 2, 0] ''1234567'') \<longrightarrow>
      (if Suc 1 < length (group_digits [3, 2, 0] ''1234567'')
       then length (rev (group_digits [3, 2, 0] ''1234567'') ! 1) = nth_group_size [3, 2, 0] 1
       else 0 < length (rev (group_digits [3, 2, 0] ''1234567'') ! 1) \<and>
         length (rev (group_digits [3, 2, 0] ''1234567'') ! 1) \<le> nth_group_size [3, 2, 0] 1)"
    by blast
  moreover have "Suc 1 < length (group_digits [3, 2, 0] ''1234567'')"
    by (simp add: g)
  ultimately have l: "length (rev (group_digits [3, 2, 0] ''1234567'') ! 1) =
      nth_group_size [3, 2, 0] 1"
    by simp
  have n: "nth_group_size [3, 2, 0] 1 = 2"
    by (simp add: nth_group_size_def)
  have d: "digits 1234567 = ''1234567''"
    by (simp add: digits.simps [of "numeral _"] digits.simps [of "Suc 0"] digit_char_def)
  have g': "group_digits [3, 0] ''1234567'' = [''1'', ''234'', ''567'']"
    by code_simp
  from inst have "format_price (example_host price_conv) (Finite (of_int 1234567)) False =
     Inr ((if 0 < (1234567 :: int) then get_default (positive_sign (conv (example_host price_conv))) []
           else get_default (negative_sign (conv (example_host price_conv))) ''-'') @
          py_join (get_default (mon_thousands_sep (conv (example_host price_conv))) ''.'')
            (group_digits (get_default (mon_grouping (conv (example_host price_conv))) [])
              (digits (nat \<bar>1234567\<bar>))))"
    by blast
  then have i: "format_price (example_host price_conv) (Finite (of_int 1234567)) False =
      Inr ''1,234,567''"
    by (simp add: example_host_def price_conv_def get_default_def d g')
  from p e q g c l n i show ?thesis
    by blast
qed

text \<open>
  C7, as stated, fails in its last part: in the locale \<^verbatim>\<open>en_US\<close> the currency symbol
  precedes the value, and \<^verbatim>\<open>format_price(0)\<close> is \<^verbatim>\<open>$-0\<close>, which does not start with
  the negative sign.
\<close>

theorem format_price_zero_symbol_first:
  "negative_sign (conv (example_host us_conv)) = Some ''-'' \<and>
   format_price (example_host us_conv) (Finite 0) True = Inr ''$-0'' \<and>
   take (length ''-'') ''$-0'' \<noteq> ''-''"
  by (simp add: format_price_Finite negative_set_def unsigned_text_def with_symbol_def Let_def
      example_host_def us_conv_def get_default_def digits_0 group_digits_single)

text \<open>
  C7, amended: \<^verbatim>\<open>format_price\<close> takes the currency-precedes flag, the space flag and
  the sign string from the positive set exactly when the value is greater than zero
  and from the negative set otherwise. For the value zero the negative set is used:
  the number text is the negative sign string followed by \<^verbatim>\<open>0\<close>, which is the whole
  result without a symbol, and with a symbol this text is what the currency symbol is
  put before or after.
\<close>

theorem format_price_sign_selection:
  "format_price h (Finite v) symbol =
     Inr (case (if 0 < v then positive_set h else negative_set h) of
            (cs_precedes, sep_by_space, sign) \<Rightarrow>
              with_symbol h symbol cs_precedes sep_by_space (sign @ unsigned_text h v)) \<and>
   format_price h (Finite 0) False = Inr (get_default (negative_sign (conv h)) ''-'' @ ''0'') \<and>
   format_price h (Finite 0) True =
     Inr (case negative_set h of
            (cs_precedes, sep_by_space, sign) \<Rightarrow>
              with_symbol h True cs_precedes sep_by_space
                (get_default (negative_sign (conv h)) ''-'' @ ''0''))"
  by (simp add: format_price_Finite negative_set_def unsigned_text_def with_symbol_def Let_def
      digits_0 group_digits_single)

theorem format_price_sign_selection_witness:
  "format_price (example_host us_conv) (Finite 0) False = Inr ''-0'' \<and>
   format_price (example_host us_conv) (Finite (- 5)) False = Inr ''-5'' \<and>
   format_price (example_host us_conv) (Finite 5) False = Inr ''5''"
proof -
  have d: "digits 5 = ''5''"
    by (simp add: digits.simps [of "numeral _"] digit_char_def)
  from format_price_sign_selection [of "example_host us_conv" 0 False, THEN conjunct2, THEN conjunct1]
  have z: "format_price (example_host us_conv) (Finite 0) False = Inr ''-0''"
    by (simp add: example_host_def us_conv_def get_default_def)
  from format_price_sign_selection [of "example_host us_conv" "- 5" False, THEN conjunct1]
  have n: "format_price (example_host us_conv) (Finite (- 5)) False = Inr ''-5''"
    by (simp add: negative_set_def unsigned_text_def with_symbol_def Let_def
        example_host_def us_conv_def get_default_def d group_digits_single)
  from format_price_sign_selection [of "example_host us_conv" 5 False, THEN conjunct1]
  have p: "format_price (example_host us_conv) (Finite 5) False = Inr ''5''"
    by (simp add: positive_set_def unsigned_text_def with_symbol_def Let_def
        example_host_def us_conv_def get_default_def d group_digits_single)
  from z n p show ?thesis by blast
qed

end
